theory Spec2Isabelle
  imports Complex_Main "HOL-Library.Sublist" "HOL-Library.Multiset"
begin

section \<open>Contract metadata extraction: the retry pipeline and the batch run\<close>

text \<open>
  The repository has two scripts with the same control flow and different schemas:
  \<^verbatim>\<open>metadata-extraction-POC.py\<close> and \<^verbatim>\<open>managed-identity-metadata-extraction-POC.py\<close>.
  One model covers both; the places where the two files differ are decided by a value
  of type \<open>pipeline\<close>.

  What is outside the model: console output (\<^verbatim>\<open>print\<close> is taken not to raise), the
  upload made by \<^verbatim>\<open>save_text_as_markdown\<close> (it catches every exception and its result
  is ignored), and the text serialisation of the CSV file. The language model, the OCR
  service and the file system answer through an \<open>env\<close> value per attempt. The paths are
  POSIX paths.
  An exception is one of class \<^verbatim>\<open>Exception\<close>, carried by its \<^verbatim>\<open>str(e)\<close>. What
  \<^verbatim>\<open>time.sleep\<close> refuses and what the files of the export refuse depends on the
  platform, so both are taken as given: the first with the configuration, the second with
  the run.
\<close>

subsection \<open>Python strings\<close>

definition nl :: char where
  "nl = CHR 0x0A"

definition backslash :: char where
  "backslash = CHR 0x5C"

text \<open>\<^verbatim>\<open>str.lower\<close> on the ASCII letters; other characters are left as they are.\<close>

definition lower_char :: "char \<Rightarrow> char" where
  "lower_char c =
     (case map_of (zip ''ABCDEFGHIJKLMNOPQRSTUVWXYZ'' ''abcdefghijklmnopqrstuvwxyz'') c of
        None \<Rightarrow> c
      | Some l \<Rightarrow> l)"

definition lower :: "string \<Rightarrow> string" where
  "lower s = map lower_char s"

text \<open>\<^verbatim>\<open>sub in s\<close> for strings is \<^const>\<open>sublist\<close>: a contiguous occurrence.\<close>

definition str_in :: "string \<Rightarrow> string \<Rightarrow> bool" where
  "str_in sub s = sublist sub s"

text \<open>\<^verbatim>\<open>'\n'.join(parts)\<close>\<close>

fun join_lines :: "string list \<Rightarrow> string" where
  "join_lines [] = []"
| "join_lines [p] = p"
| "join_lines (p # q # ps) = p @ nl # join_lines (q # ps)"

text \<open>\<^verbatim>\<open>str(n)\<close> for a count.\<close>

definition digit_char :: "nat \<Rightarrow> char" where
  "digit_char d = ''0123456789'' ! d"

function str_nat :: "nat \<Rightarrow> string" where
  "str_nat n = (if n < 10 then [digit_char n] else str_nat (n div 10) @ [digit_char (n mod 10)])"
  by pat_completeness auto
termination
  by (relation "measure id") auto

definition str_int :: "int \<Rightarrow> string" where
  "str_int i = (if i < 0 then CHR ''-'' # str_nat (nat (- i)) else str_nat (nat i))"

text \<open>
  \<^verbatim>\<open>os.path.dirname\<close> and \<^verbatim>\<open>os.path.basename\<close> as \<^verbatim>\<open>posixpath\<close> defines them:
  the split is after the last \<^verbatim>\<open>/\<close>; \<^verbatim>\<open>dirname\<close> strips the trailing slashes of a head that
  is not made of slashes only.
\<close>

definition split_last_sep :: "string \<Rightarrow> string \<times> string" where
  "split_last_sep p =
     (let tl_rev = takeWhile (\<lambda>c. c \<noteq> CHR ''/'') (rev p)
      in (take (length p - length tl_rev) p, rev tl_rev))"

definition rstrip_sep :: "string \<Rightarrow> string" where
  "rstrip_sep s = rev (dropWhile (\<lambda>c. c = CHR ''/'') (rev s))"

definition basename :: "string \<Rightarrow> string" where
  "basename p = snd (split_last_sep p)"

definition dirname :: "string \<Rightarrow> string" where
  "dirname p =
     (let head = fst (split_last_sep p)
      in if head \<noteq> [] \<and> head \<noteq> replicate (length head) (CHR ''/'') then rstrip_sep head else head)"

text \<open>
  \<^verbatim>\<open>pathlib\<close>: the components of a path are its pieces between separators, without the
  empty pieces and the pieces \<^verbatim>\<open>.\<close>; \<^verbatim>\<open>Path(p).name\<close> is the last of them.
  \<^verbatim>\<open>Path(p).suffix\<close> is the part of the name from its last dot, when that dot is neither
  the first nor the last character of the name.
\<close>

fun split_sep :: "string \<Rightarrow> string list" where
  "split_sep [] = [[]]"
| "split_sep (c # cs) =
     (if c = CHR ''/'' then [] # split_sep cs
      else case split_sep cs of [] \<Rightarrow> [[c]] | piece # pieces \<Rightarrow> (c # piece) # pieces)"

definition path_name :: "string \<Rightarrow> string" where
  "path_name p =
     (case filter (\<lambda>piece. piece \<noteq> [] \<and> piece \<noteq> ''.'') (split_sep p) of
        [] \<Rightarrow> []
      | part # parts \<Rightarrow> last (part # parts))"

definition path_suffix :: "string \<Rightarrow> string" where
  "path_suffix p =
     (let nm = path_name p;
          ext_rev = takeWhile (\<lambda>c. c \<noteq> CHR ''.'') (rev nm);
          i = length nm - length ext_rev
      in if CHR ''.'' \<in> set nm \<and> 1 < i \<and> ext_rev \<noteq> [] then drop (i - 1) nm else [])"

text \<open>
  \<^verbatim>\<open>s.replace(old, new)\<close>: every occurrence of \<open>old\<close>, from the left, without overlap;
  an empty \<open>old\<close> matches before every character and at the end.
\<close>

function replace_nonempty :: "string \<Rightarrow> string \<Rightarrow> string \<Rightarrow> string" where
  "replace_nonempty old new [] = []"
| "replace_nonempty old new (c # cs) =
     (if old \<noteq> [] \<and> prefix old (c # cs)
      then new @ replace_nonempty old new (drop (length old) (c # cs))
      else c # replace_nonempty old new cs)"
  by pat_completeness auto
termination
  by (relation "measure (\<lambda>(old, new, s). length s)") auto

definition str_replace :: "string \<Rightarrow> string \<Rightarrow> string \<Rightarrow> string" where
  "str_replace old new s =
     (if old = [] then new @ concat (map (\<lambda>c. c # new) s) else replace_nonempty old new s)"

subsection \<open>Values, dictionaries, configuration\<close>

text \<open>
  A value stored in a result dictionary: a Python string, or what \<^verbatim>\<open>json.loads\<close> put
  into the model's answer. The pipeline only copies and prints a float, a list or a
  nested object, so such a value is carried by its Python type name and its \<^verbatim>\<open>str()\<close>
  text.
\<close>

datatype jval = JNull | JBool bool | JInt int | JStr string | JOther string string

type_synonym pydict = "string \<rightharpoonup> jval"

text \<open>\<^verbatim>\<open>d.get(k, default)\<close>\<close>

definition dict_get :: "pydict \<Rightarrow> string \<Rightarrow> jval \<Rightarrow> jval" where
  "dict_get d k dflt = (case d k of None \<Rightarrow> dflt | Some v \<Rightarrow> v)"

definition type_name :: "jval \<Rightarrow> string" where
  "type_name v =
     (case v of JNull \<Rightarrow> ''NoneType'' | JBool _ \<Rightarrow> ''bool'' | JInt _ \<Rightarrow> ''int''
      | JStr _ \<Rightarrow> ''str'' | JOther ty _ \<Rightarrow> ty)"

text \<open>The text an f-string gives for a value.\<close>

definition py_str :: "jval \<Rightarrow> string" where
  "py_str v =
     (case v of JNull \<Rightarrow> ''None'' | JBool b \<Rightarrow> (if b then ''True'' else ''False'')
      | JInt i \<Rightarrow> str_int i | JStr s \<Rightarrow> s | JOther _ txt \<Rightarrow> txt)"

text \<open>The text an f-string gives for an error that may be \<^verbatim>\<open>None\<close>.\<close>

definition fmt_opt :: "string option \<Rightarrow> string" where
  "fmt_opt e = (case e of None \<Rightarrow> ''None'' | Some s \<Rightarrow> s)"

datatype pipeline = MetadataExtractionPOC | ManagedIdentityPOC

text \<open>
  A Python float: \<^verbatim>\<open>float(os.getenv("RETRY_DELAY", "2"))\<close> also reads \<^verbatim>\<open>inf\<close>, \<^verbatim>\<open>-inf\<close>
  and \<^verbatim>\<open>nan\<close>. A finite float is the real number it stands for.
\<close>

datatype pyfloat = Finite real | PosInf | NegInf | NaN

text \<open>
  The module constants the pipeline reads. With them goes \<open>sleep_raises\<close>, which is not
  a constant of the scripts but the behaviour of \<^verbatim>\<open>time.sleep\<close> on the platform: the text
  of the exception it raises for a length, \<open>None\<close> for a length it sleeps. (CPython on
  Linux raises a \<^verbatim>\<open>ValueError\<close> for a negative length and for NaN, and an
  \<^verbatim>\<open>OverflowError\<close> for infinity and for lengths from about 9.2e9 seconds on.)
\<close>

record config =
  doc_client_configured :: bool
  USE_TWO_CALL_FOR_PDFS :: bool
  ALWAYS_USE_TWO_CALL :: bool
  MAX_WORKERS :: int
  MAX_RETRIES :: int
  RETRY_DELAY :: pyfloat
  sleep_raises :: "pyfloat \<Rightarrow> string option"

definition SIRION_FIELDS :: "pipeline \<Rightarrow> string list" where
  "SIRION_FIELDS v =
     (case v of
        MetadataExtractionPOC \<Rightarrow>
          [''Customer (CK) Entity'', ''Supplier Entity'', ''Effective Date'', ''Expiration Date'',
           ''Term Type'', ''Governing Law'', ''Contract Type'', ''Contract Currency'',
           ''Payment Term'', ''Termination for Convenience'',
           ''Notice Period for Termination for Convenience'',
           ''Party with the Right to Terminate for Convenience'']
      | ManagedIdentityPOC \<Rightarrow>
          [''Original File Name'', ''Counterparty Legal Entity Name'',
           ''Internal Contracting Entity'', ''Contract Type'', ''Term Type'', ''Effective Date'',
           ''Expiration Date'', ''Governing Law'', ''Payment Term'', ''Contract Name'',
           ''Scope Category level 1'', ''Related Master Agreement''])"

subsection \<open>Work items and the answers of the outside world\<close>

datatype fdata = FBytes | FPath string | FNone

record file_info =
  name :: string
  data :: fdata
  extension :: "string option"
  blob_url :: "string option"

text \<open>What \<^verbatim>\<open>json.loads\<close> returned: an object, a list, or a scalar of the named type.\<close>

datatype parsed = PDict pydict | PList | PScalar string

text \<open>
  The answers of the collaborators during one attempt. \<open>Inl\<close> carries the \<^verbatim>\<open>str(e)\<close>
  of the exception the call raised.
\<close>

record env =
  txt_result :: "string + string"
  docx_result :: "string + string list"
  pdf_result :: "string + string list list"
  translate_result :: "string + string option"
  extract_result :: "string + parsed"
  now_iso :: string

text \<open>
  The state a call works on: the shared counter of the \<^verbatim>\<open>ProgressTracker\<close> and the
  delays handed to \<^verbatim>\<open>time.sleep\<close>, in order.
\<close>

record pstate =
  completed :: nat
  slept :: "pyfloat list"

text \<open>Truth value of a Python string that may be \<^verbatim>\<open>None\<close>.\<close>

definition truthy :: "string option \<Rightarrow> bool" where
  "truthy s = (case s of None \<Rightarrow> False | Some t \<Rightarrow> t \<noteq> [])"

definition squote :: string where
  "squote = [CHR 0x27]"

definition no_attribute :: "string \<Rightarrow> string \<Rightarrow> string" where
  "no_attribute ty attr =
     squote @ ty @ squote @ '' object has no attribute '' @ squote @ attr @ squote"

subsection \<open>File Reader\<close>

definition extract_text_from_docx :: "env \<Rightarrow> string option \<times> string option" where
  "extract_text_from_docx e =
     (case docx_result e of
        Inl err \<Rightarrow> (None, Some err)
      | Inr paragraphs \<Rightarrow> (Some (join_lines paragraphs), None))"

text \<open>
  The managed-identity script looks at \<^verbatim>\<open>blob_url\<close> first and reports a missing source
  itself; the other script opens whatever it was given, and \<^verbatim>\<open>open(None)\<close> raises inside
  the \<^verbatim>\<open>try\<close>.
\<close>

definition none_path_error :: string where
  "none_path_error = ''expected str, bytes or os.PathLike object, not NoneType''"

definition extract_text_from_pdf ::
  "pipeline \<Rightarrow> config \<Rightarrow> env \<Rightarrow> fdata \<Rightarrow> string option \<Rightarrow> string option \<times> string option" where
  "extract_text_from_pdf v cfg e file_data url =
     (if \<not> doc_client_configured cfg then (None, Some ''Document Intelligence not configured'')
      else
        let analysed =
              (case pdf_result e of
                 Inl err \<Rightarrow> (None, Some err)
               | Inr pages \<Rightarrow> (Some (join_lines (concat pages)), None))
        in case v of
             MetadataExtractionPOC \<Rightarrow>
               (case file_data of
                  FBytes \<Rightarrow> analysed
                | FPath p \<Rightarrow> analysed
                | FNone \<Rightarrow> (None, Some none_path_error))
           | ManagedIdentityPOC \<Rightarrow>
               (if truthy url then analysed
                else case file_data of
                       FBytes \<Rightarrow> analysed
                     | FPath p \<Rightarrow>
                         (if p \<noteq> [] then analysed
                          else (None, Some ''No file data or blob URL provided''))
                     | FNone \<Rightarrow> (None, Some ''No file data or blob URL provided'')))"

text \<open>The dispatch on the lower-cased extension, written twice in the source.\<close>

definition read_by_extension ::
  "pipeline \<Rightarrow> config \<Rightarrow> env \<Rightarrow> fdata \<Rightarrow> string option \<Rightarrow> string \<Rightarrow> string option \<times> string option" where
  "read_by_extension v cfg e file_data url ext =
     (if ext = ''.txt'' then
        (case txt_result e of Inr t \<Rightarrow> (Some t, None) | Inl err \<Rightarrow> (None, Some err))
      else if ext = ''.docx'' then extract_text_from_docx e
      else if ext = ''.pdf'' then extract_text_from_pdf v cfg e file_data url
      else (None, Some (''Unsupported file format: '' @ ext)))"

text \<open>
  \<open>Inl\<close> is the exception that leaves \<^verbatim>\<open>read_contract_file\<close>: \<^verbatim>\<open>Path(None)\<close> raises a
  \<^verbatim>\<open>TypeError\<close> in the branch for local paths.
\<close>

definition read_contract_file ::
  "pipeline \<Rightarrow> config \<Rightarrow> env \<Rightarrow> fdata \<Rightarrow> string option \<Rightarrow> string option
     \<Rightarrow> string + (string option \<times> string option)" where
  "read_contract_file v cfg e file_path_or_data ext url =
     (case file_path_or_data of
        FBytes \<Rightarrow>
          (if \<not> truthy ext then Inr (None, Some ''Extension required for bytes data'')
           else Inr (read_by_extension v cfg e FBytes url (lower (fmt_opt ext))))
      | FPath p \<Rightarrow> Inr (read_by_extension v cfg e (FPath p) url (lower (path_suffix p)))
      | FNone \<Rightarrow>
          (if v = ManagedIdentityPOC \<and> truthy url then
             (if \<not> truthy ext then Inr (None, Some ''Extension required for blob URL'')
              else if lower (fmt_opt ext) = ''.pdf''
                then Inr (extract_text_from_pdf v cfg e FNone url)
              else Inr (None, Some (''Blob URL only supported for PDFs, got: '' @ lower (fmt_opt ext))))
           else Inl none_path_error))"

subsection \<open>Extraction Strategy\<close>

definition is_rate_limited :: "string \<Rightarrow> bool" where
  "is_rate_limited error = (str_in ''rate'' (lower error) \<or> str_in ''429'' error)"

text \<open>
  The body of the \<^verbatim>\<open>try\<close> in the two extraction functions: the completion call and
  \<^verbatim>\<open>json.loads\<close> answer through \<open>extract_result\<close>; storing a key into something that
  is not a dictionary raises a \<^verbatim>\<open>TypeError\<close>.
\<close>

definition store_error :: "parsed \<Rightarrow> string" where
  "store_error p =
     (case p of
        PList \<Rightarrow> ''list indices must be integers or slices, not str''
      | PScalar ty \<Rightarrow> squote @ ty @ squote @ '' object does not support item assignment''
      | PDict d \<Rightarrow> [])"

definition extract_metadata_direct :: "pipeline \<Rightarrow> env \<Rightarrow> string \<Rightarrow> string + pydict" where
  "extract_metadata_direct v e file_name =
     (let flagged = (\<lambda>error_msg. if is_rate_limited error_msg
                                 then error_msg @ '' (Rate limit detected)'' else error_msg)
      in case extract_result e of
           Inl err \<Rightarrow> Inl (flagged err)
         | Inr (PDict d) \<Rightarrow>
             (let result = d(''file_name'' \<mapsto> JStr file_name,
                             ''extraction_timestamp'' \<mapsto> JStr (now_iso e))
              in Inr (case v of
                        MetadataExtractionPOC \<Rightarrow> result
                      | ManagedIdentityPOC \<Rightarrow> result(''Original File Name'' \<mapsto> JStr file_name)))
         | Inr p \<Rightarrow> Inl (flagged (store_error p)))"

definition translate_to_english :: "env \<Rightarrow> string option \<times> string option" where
  "translate_to_english e =
     (case translate_result e of
        Inl err \<Rightarrow> (None, Some err)
      | Inr translation \<Rightarrow> (translation, None))"

definition extract_metadata_from_english :: "pipeline \<Rightarrow> env \<Rightarrow> string \<Rightarrow> string + pydict" where
  "extract_metadata_from_english v e file_name =
     (case extract_result e of
        Inl err \<Rightarrow> Inl err
      | Inr (PDict d) \<Rightarrow>
          (let result = d(''file_name'' \<mapsto> JStr file_name,
                          ''extraction_timestamp'' \<mapsto> JStr (now_iso e),
                          ''extraction_method'' \<mapsto> JStr ''two_call_translation'')
           in Inr (case v of
                     MetadataExtractionPOC \<Rightarrow> result
                   | ManagedIdentityPOC \<Rightarrow> result(''Original File Name'' \<mapsto> JStr file_name)))
      | Inr p \<Rightarrow> Inl (store_error p))"

subsection \<open>Retry Controller\<close>

text \<open>
  The identity columns of a record. The managed-identity script splits the name into a
  folder and a base name; the other script stores the name as it is.
\<close>

definition folder_path :: "string \<Rightarrow> string" where
  "folder_path file_name =
     (if str_in ''/'' file_name \<or> str_in [backslash] file_name then dirname file_name else [])"

definition identity_columns :: "pipeline \<Rightarrow> string \<Rightarrow> pydict" where
  "identity_columns v file_name =
     (case v of
        MetadataExtractionPOC \<Rightarrow> [''File Name'' \<mapsto> JStr file_name]
      | ManagedIdentityPOC \<Rightarrow>
          [''Folder Path'' \<mapsto> JStr (folder_path file_name),
           ''File Name'' \<mapsto> JStr (basename file_name)])"

definition failure_record :: "pipeline \<Rightarrow> string \<Rightarrow> string \<Rightarrow> pydict" where
  "failure_record v file_name error = (identity_columns v file_name)(''Error'' \<mapsto> JStr error)"

text \<open>The row of a successful extraction, built in the order of the source.\<close>

definition build_row :: "pipeline \<Rightarrow> string \<Rightarrow> pydict \<Rightarrow> pydict" where
  "build_row v file_name metadata =
     (let row0 = (identity_columns v file_name)
                   (''Source Language'' \<mapsto> dict_get metadata ''source_language'' (JStr ''unknown''),
                    ''Extraction Timestamp'' \<mapsto> dict_get metadata ''extraction_timestamp'' (JStr []));
          row1 = fold (\<lambda>field row. row(field \<mapsto> dict_get metadata field (JStr [])))
                   (SIRION_FIELDS v) row0
      in row1(''Confidence'' \<mapsto> dict_get metadata ''confidence'' (JStr ''medium''),
              ''Notes'' \<mapsto> dict_get metadata ''extraction_notes'' (JStr [])))"

text \<open>\<^verbatim>\<open>if progress_tracker: completed = progress_tracker.increment()\<close>\<close>

definition increment :: "bool \<Rightarrow> pstate \<Rightarrow> pstate" where
  "increment tracked st = (if tracked then st\<lparr>completed := Suc (completed st)\<rparr> else st)"

text \<open>\<^verbatim>\<open>time.sleep(secs)\<close>: the platform refuses the length, or the length is slept.\<close>

definition time_sleep :: "config \<Rightarrow> pyfloat \<Rightarrow> pstate \<Rightarrow> (string + unit) \<times> pstate" where
  "time_sleep cfg secs st =
     (case sleep_raises cfg secs of
        Some exc \<Rightarrow> (Inl exc, st)
      | None \<Rightarrow> (Inr (), st\<lparr>slept := slept st @ [secs]\<rparr>))"

text \<open>
  The product of a float and the integer \<open>2 ^ k\<close>, once the integer is a float: exact,
  and an infinity where the exact product is beyond the largest float.
\<close>

definition float_times_pow2 :: "pyfloat \<Rightarrow> nat \<Rightarrow> pyfloat" where
  "float_times_pow2 x k =
     (case x of
        Finite r \<Rightarrow>
          (if 2 ^ 1024 \<le> r * 2 ^ k then PosInf
           else if r * 2 ^ k \<le> - (2 ^ 1024) then NegInf
           else Finite (r * 2 ^ k))
      | PosInf \<Rightarrow> PosInf
      | NegInf \<Rightarrow> NegInf
      | NaN \<Rightarrow> NaN)"

text \<open>
  \<^verbatim>\<open>wait_time = RETRY_DELAY * (2 ** (attempt - 1))\<close>, for the attempts of the loop, which
  start at 1: the power is an integer, and Python raises an \<^verbatim>\<open>OverflowError\<close> when it
  turns an integer of \<open>2 ^ 1024\<close> or more into a float.
\<close>

definition wait_time :: "config \<Rightarrow> int \<Rightarrow> string + pyfloat" where
  "wait_time cfg attempt =
     (if 1024 \<le> attempt - 1 then Inl ''int too large to convert to float''
      else Inr (float_times_pow2 (RETRY_DELAY cfg) (nat (attempt - 1))))"

text \<open>
  The two statements that both the rate-limit branch and the \<^verbatim>\<open>except\<close> handler run:
  compute \<^verbatim>\<open>wait_time\<close>, then \<^verbatim>\<open>time.sleep(wait_time)\<close>.
\<close>

definition backoff :: "config \<Rightarrow> int \<Rightarrow> pstate \<Rightarrow> (string + unit) \<times> pstate" where
  "backoff cfg attempt st =
     (case wait_time cfg attempt of
        Inl exc \<Rightarrow> (Inl exc, st)
      | Inr secs \<Rightarrow> time_sleep cfg secs st)"

text \<open>
  The status line of a success calls \<^verbatim>\<open>.upper()\<close> on the source language, which only a
  string has; the call is made after the counter was incremented.
\<close>

definition upper_error :: "pydict \<Rightarrow> string option" where
  "upper_error metadata =
     (case dict_get metadata ''source_language'' (JStr ''unknown'') of
        JStr s \<Rightarrow> None
      | other \<Rightarrow> Some (no_attribute (type_name other) ''upper''))"

text \<open>How one pass through the \<^verbatim>\<open>try\<close> block ends.\<close>

datatype attempt_exit = Returned pydict | Continued | Raised string

text \<open>
  The part of the \<^verbatim>\<open>try\<close> block from \<^verbatim>\<open>if metadata:\<close> on. The extraction functions
  return either a dictionary, which holds at least the key \<^verbatim>\<open>file_name\<close> and so is true,
  or \<^verbatim>\<open>None\<close> with an error text: \<open>Inr\<close> and \<open>Inl\<close>.
\<close>

definition handle_extraction ::
  "pipeline \<Rightarrow> config \<Rightarrow> file_info \<Rightarrow> bool \<Rightarrow> int \<Rightarrow> pstate \<Rightarrow> string + pydict
     \<Rightarrow> attempt_exit \<times> pstate" where
  "handle_extraction v cfg fi tracked attempt st extraction =
     (case extraction of
        Inr metadata \<Rightarrow>
          (let row = build_row v (name fi) metadata
           in if tracked then
                (case upper_error metadata of
                   Some exc \<Rightarrow> (Raised exc, increment tracked st)
                 | None \<Rightarrow> (Returned row, increment tracked st))
              else (Returned row, st))
      | Inl error \<Rightarrow>
          (if attempt < MAX_RETRIES cfg \<and> is_rate_limited error then
             (case backoff cfg attempt st of
                (Inl exc, st') \<Rightarrow> (Raised exc, st')
              | (Inr u, st') \<Rightarrow> (Continued, st'))
           else (Returned (failure_record v (name fi) error), increment tracked st)))"

definition try_block ::
  "pipeline \<Rightarrow> config \<Rightarrow> env \<Rightarrow> file_info \<Rightarrow> bool \<Rightarrow> int \<Rightarrow> pstate \<Rightarrow> attempt_exit \<times> pstate" where
  "try_block v cfg e fi tracked attempt st =
     (case read_contract_file v cfg e (data fi) (extension fi) (blob_url fi) of
        Inl exc \<Rightarrow> (Raised exc, st)
      | Inr (contract_text, read_error) \<Rightarrow>
          (if \<not> truthy contract_text then
             (Returned (failure_record v (name fi) (''Read error: '' @ fmt_opt read_error)),
              increment tracked st)
           else
             (case extension fi of
                None \<Rightarrow> (Raised (no_attribute ''NoneType'' ''lower''), st)
              | Some ext \<Rightarrow>
                  (let is_pdf = (lower ext = ''.pdf'');
                       use_two_call = (ALWAYS_USE_TWO_CALL cfg \<or> (is_pdf \<and> USE_TWO_CALL_FOR_PDFS cfg))
                   in if use_two_call then
                        (case translate_to_english e of
                           (translation, trans_error) \<Rightarrow>
                             (if \<not> truthy translation then
                                (Returned (failure_record v (name fi)
                                             (''Translation error: '' @ fmt_opt trans_error)),
                                 increment tracked st)
                              else handle_extraction v cfg fi tracked attempt st
                                     (extract_metadata_from_english v e (name fi))))
                      else handle_extraction v cfg fi tracked attempt st
                             (extract_metadata_direct v e (name fi))))))"

text \<open>
  How the \<^verbatim>\<open>for\<close> loop ends: a \<^verbatim>\<open>return\<close> inside it, the range running out, or an
  exception raised inside the \<^verbatim>\<open>except\<close> handler, which nothing catches.
\<close>

datatype loop_exit = Result pydict | Exhausted | Escaped string

fun retry_loop ::
  "pipeline \<Rightarrow> config \<Rightarrow> (int \<Rightarrow> env) \<Rightarrow> file_info \<Rightarrow> bool \<Rightarrow> int list \<Rightarrow> pstate
     \<Rightarrow> loop_exit \<times> pstate" where
  "retry_loop v cfg world fi tracked [] st = (Exhausted, st)"
| "retry_loop v cfg world fi tracked (attempt # rest) st =
     (case try_block v cfg (world attempt) fi tracked attempt st of
        (Returned r, st') \<Rightarrow> (Result r, st')
      | (Continued, st') \<Rightarrow> retry_loop v cfg world fi tracked rest st'
      | (Raised exc, st') \<Rightarrow>
          (if attempt < MAX_RETRIES cfg then
             (case backoff cfg attempt st' of
                (Inl exc', st'') \<Rightarrow> (Escaped exc', st'')
              | (Inr u, st'') \<Rightarrow> retry_loop v cfg world fi tracked rest st'')
           else (Result (failure_record v (name fi) exc), increment tracked st')))"

text \<open>
  \<open>world attempt\<close> is what the collaborators answer during that attempt. \<open>Inl\<close> is an
  exception that reaches the caller.
\<close>

definition process_contract_with_retry ::
  "pipeline \<Rightarrow> config \<Rightarrow> (int \<Rightarrow> env) \<Rightarrow> file_info \<Rightarrow> bool \<Rightarrow> pstate \<Rightarrow> (string + pydict) \<times> pstate" where
  "process_contract_with_retry v cfg world fi tracked st =
     (case retry_loop v cfg world fi tracked [1..MAX_RETRIES cfg] st of
        (Result r, st') \<Rightarrow> (Inr r, st')
      | (Exhausted, st') \<Rightarrow> (Inr (failure_record v (name fi) ''Max retries exceeded''), st')
      | (Escaped exc, st') \<Rightarrow> (Inl exc, st'))"

subsection \<open>Batch Orchestrator\<close>

datatype source = BlobContainer | LocalFolder

text \<open>
  The work item \<^verbatim>\<open>process_contracts_from_blob\<close> builds for a blob. \<open>downloaded\<close> tells
  whether preparing the blob raised nothing. The managed-identity script hands a PDF over
  by its URL and downloads the other files; the other script downloads every file.
\<close>

definition blob_file_info :: "pipeline \<Rightarrow> string \<Rightarrow> string \<Rightarrow> bool \<Rightarrow> file_info" where
  "blob_file_info v blob_name url downloaded =
     (if \<not> downloaded then
        \<lparr>name = blob_name, data = FNone, extension = None, blob_url = None\<rparr>
      else
        let ext = lower (path_suffix blob_name)
        in if v = ManagedIdentityPOC \<and> ext = ''.pdf'' then
             \<lparr>name = blob_name, data = FNone, extension = Some ext, blob_url = Some url\<rparr>
           else \<lparr>name = blob_name, data = FBytes, extension = Some ext, blob_url = None\<rparr>)"

text \<open>The work item \<^verbatim>\<open>process_contracts_to_csv\<close> builds for a local file.\<close>

definition local_file_info :: "string \<Rightarrow> file_info" where
  "local_file_info file_path =
     \<lparr>name = path_name file_path, data = FPath file_path,
      extension = Some (lower (path_suffix file_path)), blob_url = None\<rparr>"

text \<open>A work item together with the answers the collaborators give at each of its attempts.\<close>

type_synonym work_item = "file_info \<times> (int \<Rightarrow> env)"

definition fresh :: pstate where
  "fresh = \<lparr>completed = 0, slept = []\<rparr>"

text \<open>
  Sequential mode: \<^verbatim>\<open>results.append(process_contract_with_retry(file_info, progress))\<close>
  for each item in turn; an exception that leaves a call ends the loop.
\<close>

fun run_sequential ::
  "pipeline \<Rightarrow> config \<Rightarrow> work_item list \<Rightarrow> pstate \<Rightarrow> (string + pydict list) \<times> pstate" where
  "run_sequential v cfg [] st = (Inr [], st)"
| "run_sequential v cfg ((fi, world) # rest) st =
     (case process_contract_with_retry v cfg world fi True st of
        (Inl exc, st') \<Rightarrow> (Inl exc, st')
      | (Inr r, st') \<Rightarrow>
          (case run_sequential v cfg rest st' of
             (Inl exc, st'') \<Rightarrow> (Inl exc, st'')
           | (Inr rs, st'') \<Rightarrow> (Inr (r # rs), st'')))"

text \<open>
  Parallel mode. \<^verbatim>\<open>ThreadPoolExecutor(max_workers=MAX_WORKERS)\<close> raises a \<^verbatim>\<open>ValueError\<close>
  for a number of workers below 1, before any item is submitted. Otherwise every item is
  submitted once, and \<^verbatim>\<open>as_completed\<close> yields every future once, in the order of
  completion: \<open>order\<close> lists the indices of the items in that order (a list that is not
  a permutation of the indices stands for the order of submission).
  \<^verbatim>\<open>future.result()\<close> raises again what the worker raised. The workers share only the
  counter, which no result depends on, so each runs from \<open>fresh\<close>. (That the platform
  can start the threads is taken for granted.)
\<close>

definition as_completed :: "nat list \<Rightarrow> 'a list \<Rightarrow> 'a list" where
  "as_completed order futures =
     (if sort order = [0..<length futures] then map (\<lambda>i. futures ! i) order else futures)"

fun collect :: "(string + pydict) list \<Rightarrow> string + pydict list" where
  "collect [] = Inr []"
| "collect (Inl exc # fs) = Inl exc"
| "collect (Inr r # fs) = (case collect fs of Inl exc \<Rightarrow> Inl exc | Inr rs \<Rightarrow> Inr (r # rs))"

definition worker :: "pipeline \<Rightarrow> config \<Rightarrow> work_item \<Rightarrow> string + pydict" where
  "worker v cfg item = fst (process_contract_with_retry v cfg (snd item) (fst item) True fresh)"

definition run_parallel :: "pipeline \<Rightarrow> config \<Rightarrow> nat list \<Rightarrow> work_item list \<Rightarrow> string + pydict list" where
  "run_parallel v cfg order file_infos =
     (if MAX_WORKERS cfg \<le> 0 then Inl ''max_workers must be greater than 0''
      else collect (as_completed order (map (worker v cfg) file_infos)))"

definition run_items ::
  "pipeline \<Rightarrow> config \<Rightarrow> bool \<Rightarrow> nat list \<Rightarrow> work_item list \<Rightarrow> string + pydict list" where
  "run_items v cfg parallel_mode order file_infos =
     (if parallel_mode \<and> 1 < length file_infos then run_parallel v cfg order file_infos
      else fst (run_sequential v cfg file_infos fresh))"

text \<open>\<^verbatim>\<open>'Error' in r\<close>\<close>

definition is_error :: "pydict \<Rightarrow> bool" where
  "is_error r = (r ''Error'' \<noteq> None)"

definition error_count :: "pydict list \<Rightarrow> nat" where
  "error_count results = length (filter is_error results)"

definition success_count :: "pydict list \<Rightarrow> nat" where
  "success_count results = length (filter (\<lambda>r. \<not> is_error r) results)"

definition csv_columns :: "pipeline \<Rightarrow> source \<Rightarrow> string list" where
  "csv_columns v src =
     (if v = ManagedIdentityPOC \<and> src = BlobContainer then [''Folder Path''] else [])
     @ [''File Name'', ''Source Language'', ''Extraction Timestamp'']
     @ SIRION_FIELDS v @ [''Confidence'', ''Notes'']"

text \<open>
  A row as \<^verbatim>\<open>csv.DictWriter(fieldnames=csv_columns, extrasaction='ignore')\<close> writes it:
  the value of every column, the empty string for a key the dictionary lacks; a key that
  is no column is left out.
\<close>

definition csv_row :: "string list \<Rightarrow> pydict \<Rightarrow> jval list" where
  "csv_row columns r = map (\<lambda>c. dict_get r c (JStr [])) columns"

definition failed_contracts :: "source \<Rightarrow> pydict list \<Rightarrow> jval list" where
  "failed_contracts src results =
     map (\<lambda>r. dict_get r ''File Name''
                 (case src of
                    BlobContainer \<Rightarrow> dict_get r ''Folder Path'' (JStr ''Unknown'')
                  | LocalFolder \<Rightarrow> JStr ''Unknown''))
       (filter is_error results)"

text \<open>The texts that the \<^verbatim>\<open>f.write\<close> calls of the failure list write, in order.\<close>

definition failed_file_chunks :: "nat \<Rightarrow> jval list \<Rightarrow> string list" where
  "failed_file_chunks n failed =
     [''Failed Contracts ('' @ str_nat n @ '' total)'' @ [nl],
      replicate 80 (CHR ''='') @ [nl, nl]]
     @ map (\<lambda>contract. py_str contract @ [nl]) failed"

text \<open>
  What the files of the export answer during a run: the exception that opening the CSV
  file or the failure list raises, and the exception that writing a row or a text raises
  (a \<^verbatim>\<open>UnicodeEncodeError\<close> for a string that UTF-8 cannot encode); \<open>None\<close> where nothing
  is raised.
\<close>

record sink =
  csv_open_raises :: "string option"
  row_raises :: "jval list \<Rightarrow> string option"
  list_open_raises :: "string option"
  text_raises :: "string \<Rightarrow> string option"

text \<open>
  A file as the export leaves it: the rows of a CSV file, the header row first, or a
  text. A file that was opened holds what was written before an exception.
\<close>

datatype file_content = CsvFile "jval list list" | TextFile string

fun write_rows :: "(jval list \<Rightarrow> string option) \<Rightarrow> jval list list \<Rightarrow> string option \<times> jval list list" where
  "write_rows raises [] = (None, [])"
| "write_rows raises (row # rows) =
     (case raises row of
        Some exc \<Rightarrow> (Some exc, [])
      | None \<Rightarrow> (case write_rows raises rows of (exc, written) \<Rightarrow> (exc, row # written)))"

fun write_texts :: "(string \<Rightarrow> string option) \<Rightarrow> string list \<Rightarrow> string option \<times> string" where
  "write_texts raises [] = (None, [])"
| "write_texts raises (chunk # chunks) =
     (case raises chunk of
        Some exc \<Rightarrow> (Some exc, [])
      | None \<Rightarrow> (case write_texts raises chunks of (exc, written) \<Rightarrow> (exc, chunk @ written)))"

text \<open>
  \<^verbatim>\<open>with open(output_csv, 'w', ...)\<close>, \<^verbatim>\<open>writer.writeheader()\<close>,
  \<^verbatim>\<open>writer.writerows(results)\<close>. The result is the exception, if one was raised, and the
  files written, as pairs of path and content.
\<close>

definition write_csv ::
  "sink \<Rightarrow> string \<Rightarrow> string list \<Rightarrow> pydict list \<Rightarrow> string option \<times> (string \<times> file_content) list" where
  "write_csv sk output_csv columns results =
     (case csv_open_raises sk of
        Some exc \<Rightarrow> (Some exc, [])
      | None \<Rightarrow>
          (case write_rows (row_raises sk) (map JStr columns # map (csv_row columns) results) of
             (exc, written) \<Rightarrow> (exc, [(output_csv, CsvFile written)])))"

text \<open>
  The block under \<^verbatim>\<open>if error_count > 0\<close> of the managed-identity script. The path of the
  list is \<^verbatim>\<open>output_csv.replace('.csv', '_failed_contracts.txt')\<close>, which is the path of
  the CSV file itself when that has no \<^verbatim>\<open>.csv\<close> in it.
\<close>

definition failed_file_path :: "string \<Rightarrow> string" where
  "failed_file_path output_csv = str_replace ''.csv'' ''_failed_contracts.txt'' output_csv"

definition write_failed_list ::
  "sink \<Rightarrow> string \<Rightarrow> source \<Rightarrow> pydict list \<Rightarrow> string option \<times> (string \<times> file_content) list" where
  "write_failed_list sk output_csv src results =
     (let failed_file = failed_file_path output_csv;
          failed = failed_contracts src results
      in case list_open_raises sk of
           Some exc \<Rightarrow> (Some exc, [])
         | None \<Rightarrow>
             (case write_texts (text_raises sk) (failed_file_chunks (error_count results) failed) of
                (exc, written) \<Rightarrow> (exc, [(failed_file, TextFile written)])))"

text \<open>
  The export, under \<^verbatim>\<open>if results:\<close>: the CSV file, then the failure list. Only the
  managed-identity script has the code that writes the second file. The files are listed
  in the order in which they were written; a later file replaces an earlier one of the
  same path.
\<close>

definition export_outputs ::
  "pipeline \<Rightarrow> sink \<Rightarrow> string \<Rightarrow> source \<Rightarrow> pydict list
     \<Rightarrow> string option \<times> (string \<times> file_content) list" where
  "export_outputs v sk output_csv src results =
     (if results \<noteq> [] then
        (case write_csv sk output_csv (csv_columns v src) results of
           (Some exc, written) \<Rightarrow> (Some exc, written)
         | (None, written) \<Rightarrow>
             (case v of
                MetadataExtractionPOC \<Rightarrow> (None, written)
              | ManagedIdentityPOC \<Rightarrow>
                  (if 0 < error_count results then
                     (case write_failed_list sk output_csv src results of
                        (exc, written') \<Rightarrow> (exc, written @ written'))
                   else (None, written))))
      else (None, []))"

definition files_after :: "(string \<times> file_content) list \<Rightarrow> (string \<rightharpoonup> file_content)" where
  "files_after written = fold (\<lambda>(path, content) files. files(path \<mapsto> content)) written Map.empty"

text \<open>
  The summary statistics, under \<^verbatim>\<open>if success_count > 0\<close>. The first loop uses the
  source language and the confidence of every row that has them as dictionary keys,
  which a list or a nested object cannot be; the loop that prints the languages then
  calls \<^verbatim>\<open>.upper()\<close> on each of them.
\<close>

definition hash_error :: "jval \<Rightarrow> string option" where
  "hash_error value =
     (case value of
        JOther ty txt \<Rightarrow>
          (if ty = ''list'' \<or> ty = ''dict'' then Some (''unhashable type: '' @ squote @ ty @ squote)
           else None)
      | other \<Rightarrow> None)"

fun count_rows :: "pydict list \<Rightarrow> string option" where
  "count_rows [] = None"
| "count_rows (row # rows) =
     (case (case row ''Source Language'' of None \<Rightarrow> None | Some lang \<Rightarrow> hash_error lang) of
        Some exc \<Rightarrow> Some exc
      | None \<Rightarrow>
          (case (case row ''Confidence'' of None \<Rightarrow> None | Some conf \<Rightarrow> hash_error conf) of
             Some exc \<Rightarrow> Some exc
           | None \<Rightarrow> count_rows rows))"

fun print_languages :: "pydict list \<Rightarrow> string option" where
  "print_languages [] = None"
| "print_languages (row # rows) =
     (case row ''Source Language'' of
        None \<Rightarrow> print_languages rows
      | Some (JStr lang) \<Rightarrow> print_languages rows
      | Some other \<Rightarrow> Some (no_attribute (type_name other) ''upper''))"

definition summary_error :: "pydict list \<Rightarrow> string option" where
  "summary_error results =
     (if 0 < success_count results then
        (case count_rows results of
           Some exc \<Rightarrow> Some exc
         | None \<Rightarrow> print_languages results)
      else None)"

text \<open>
  \<^verbatim>\<open>process_contracts_from_blob\<close> (with the storage client configured) and
  \<^verbatim>\<open>process_contracts_to_csv\<close> (with the folder present), from the list of work items
  on: the workers, the export, the summary. An exception leaves
  \<^verbatim>\<open>process_contracts_to_csv\<close>; \<^verbatim>\<open>process_contracts_from_blob\<close> catches it and returns
  \<^verbatim>\<open>None\<close>. In both cases the files written before the exception stay.
\<close>

datatype batch_exit =
  NoContractFiles
  | BatchRaised string "(string \<times> file_content) list"
  | Completed "pydict list" "(string \<times> file_content) list"

definition process_contracts ::
  "pipeline \<Rightarrow> source \<Rightarrow> config \<Rightarrow> sink \<Rightarrow> string \<Rightarrow> bool \<Rightarrow> nat list \<Rightarrow> work_item list
     \<Rightarrow> batch_exit" where
  "process_contracts v src cfg sk output_csv parallel_mode order file_infos =
     (if file_infos = [] then NoContractFiles
      else case run_items v cfg parallel_mode order file_infos of
             Inl exc \<Rightarrow> BatchRaised exc []
           | Inr results \<Rightarrow>
               (case export_outputs v sk output_csv src results of
                  (Some exc, written) \<Rightarrow> BatchRaised exc written
                | (None, written) \<Rightarrow>
                    (case summary_error results of
                       Some exc \<Rightarrow> BatchRaised exc written
                     | None \<Rightarrow> Completed results written)))"

subsection \<open>Notions used to state the properties\<close>

text \<open>
  The error text that the metadata-extraction call of an attempt hands back to
  \<^verbatim>\<open>process_contract_with_retry\<close> (the variable \<^verbatim>\<open>error\<close> of the source), when the
  attempt gets as far as that call and the call fails.
\<close>

definition reported_error :: "pipeline \<Rightarrow> config \<Rightarrow> env \<Rightarrow> file_info \<Rightarrow> string option" where
  "reported_error v cfg e fi =
     (case read_contract_file v cfg e (data fi) (extension fi) (blob_url fi) of
        Inl exc \<Rightarrow> None
      | Inr (contract_text, read_error) \<Rightarrow>
          (if \<not> truthy contract_text then None
           else case extension fi of
                  None \<Rightarrow> None
                | Some ext \<Rightarrow>
                    (if ALWAYS_USE_TWO_CALL cfg \<or> (lower ext = ''.pdf'' \<and> USE_TWO_CALL_FOR_PDFS cfg)
                     then (if truthy (fst (translate_to_english e))
                           then (case extract_metadata_from_english v e (name fi) of
                                   Inl err \<Rightarrow> Some err
                                 | Inr md \<Rightarrow> None)
                           else None)
                     else (case extract_metadata_direct v e (name fi) of
                             Inl err \<Rightarrow> Some err
                           | Inr md \<Rightarrow> None))))"

text \<open>
  The error text of the record that an attempt returns before the extraction call: that
  of a read error or of a translation error.
\<close>

definition early_failure :: "pipeline \<Rightarrow> config \<Rightarrow> env \<Rightarrow> file_info \<Rightarrow> string option" where
  "early_failure v cfg e fi =
     (case read_contract_file v cfg e (data fi) (extension fi) (blob_url fi) of
        Inl exc \<Rightarrow> None
      | Inr (contract_text, read_error) \<Rightarrow>
          (if \<not> truthy contract_text then Some (''Read error: '' @ fmt_opt read_error)
           else case extension fi of
                  None \<Rightarrow> None
                | Some ext \<Rightarrow>
                    (if ALWAYS_USE_TWO_CALL cfg \<or> (lower ext = ''.pdf'' \<and> USE_TWO_CALL_FOR_PDFS cfg)
                     then (if truthy (fst (translate_to_english e)) then None
                           else Some (''Translation error: '' @ fmt_opt (snd (translate_to_english e))))
                     else None)))"

text \<open>
  The delay of an attempt, when \<^verbatim>\<open>wait_time\<close> can be computed and \<^verbatim>\<open>time.sleep\<close> takes
  it; and the configurations in which that is so for every attempt that has a next one.
\<close>

definition accepted_delay :: "config \<Rightarrow> int \<Rightarrow> pyfloat option" where
  "accepted_delay cfg attempt =
     (case wait_time cfg attempt of
        Inl exc \<Rightarrow> None
      | Inr secs \<Rightarrow> (case sleep_raises cfg secs of None \<Rightarrow> Some secs | Some exc \<Rightarrow> None))"

definition delays_accepted :: "config \<Rightarrow> bool" where
  "delays_accepted cfg = (\<forall>attempt\<in>set [1..MAX_RETRIES cfg - 1]. accepted_delay cfg attempt \<noteq> None)"

text \<open>The exception an attempt raises inside the \<^verbatim>\<open>try\<close> block, if it raises one.\<close>

definition raised_exception ::
  "pipeline \<Rightarrow> config \<Rightarrow> env \<Rightarrow> file_info \<Rightarrow> bool \<Rightarrow> int \<Rightarrow> string option" where
  "raised_exception v cfg e fi tracked attempt =
     (case fst (try_block v cfg e fi tracked attempt fresh) of
        Raised exc \<Rightarrow> Some exc
      | Returned r \<Rightarrow> None
      | Continued \<Rightarrow> None)"

text \<open>The keys that the extraction functions write into the answer of the model.\<close>

definition stamped_keys :: "string set" where
  "stamped_keys =
     {''file_name'', ''extraction_timestamp'', ''extraction_method'', ''Original File Name''}"

subsection \<open>Concrete inputs\<close>

text \<open>
  A \<^verbatim>\<open>time.sleep\<close> in the manner of CPython 3.11 on Linux (where the bound for long
  lengths moves with the clock; it is put at \<open>2 ^ 63\<close> nanoseconds here).
\<close>

definition posix_sleep :: "pyfloat \<Rightarrow> string option" where
  "posix_sleep secs =
     (case secs of
        NaN \<Rightarrow> Some ''Invalid value NaN (not a number)''
      | PosInf \<Rightarrow> Some ''timestamp out of range for platform time_t''
      | NegInf \<Rightarrow> Some ''timestamp out of range for platform time_t''
      | Finite s \<Rightarrow>
          (if 9223372036854775808 \<le> s * 1000000000 \<or> s * 1000000000 < - 9223372036854775808
           then Some ''timestamp out of range for platform time_t''
           else if s < 0 then Some ''sleep length must be non-negative''
           else None))"

text \<open>
  The default configuration, and others that differ from it in one value: a negative
  delay, no delay, a delay of 1e10 seconds, no worker.
\<close>

definition cfg_default :: config where
  "cfg_default =
     \<lparr>doc_client_configured = True, USE_TWO_CALL_FOR_PDFS = True, ALWAYS_USE_TWO_CALL = False,
      MAX_WORKERS = 10, MAX_RETRIES = 3, RETRY_DELAY = Finite 2, sleep_raises = posix_sleep\<rparr>"

definition cfg_negative_delay :: config where
  "cfg_negative_delay = cfg_default\<lparr>RETRY_DELAY := Finite (- 1)\<rparr>"

definition cfg_zero_delay :: config where
  "cfg_zero_delay = cfg_default\<lparr>RETRY_DELAY := Finite 0\<rparr>"

definition cfg_long_delay :: config where
  "cfg_long_delay = cfg_default\<lparr>RETRY_DELAY := Finite 10000000000\<rparr>"

definition cfg_no_workers :: config where
  "cfg_no_workers = cfg_default\<lparr>MAX_WORKERS := 0\<rparr>"

text \<open>Files that take every write, and two names for the CSV file.\<close>

definition sink_ok :: sink where
  "sink_ok =
     \<lparr>csv_open_raises = None, row_raises = (\<lambda>row. None), list_open_raises = None,
      text_raises = (\<lambda>chunk. None)\<rparr>"

definition default_csv :: string where
  "default_csv = ''sirion_metadata.csv''"

definition bare_name :: string where
  "bare_name = ''results''"

text \<open>
  Three work items: a downloaded text file, a PDF handed over by its URL, and a blob
  whose download failed.
\<close>

definition item_txt :: file_info where
  "item_txt = \<lparr>name = ''nordic/avtal.txt'', data = FBytes, extension = Some ''.txt'', blob_url = None\<rparr>"

definition item_pdf :: file_info where
  "item_pdf =
     \<lparr>name = ''umowa.pdf'', data = FNone, extension = Some ''.pdf'',
      blob_url = Some ''https://account.blob.core.windows.net/documents/umowa.pdf''\<rparr>"

definition item_lost :: file_info where
  "item_lost = \<lparr>name = ''leping.docx'', data = FNone, extension = None, blob_url = None\<rparr>"

text \<open>
  An answer of the model that names another file, pairs the term type
  \<^verbatim>\<open>Perpetual\<close> with an expiration date and leaves out the confidence.
\<close>

definition model_answer :: pydict where
  "model_answer =
     [''Original File Name'' \<mapsto> JStr ''supply_agreement.pdf'',
      ''Term Type'' \<mapsto> JStr ''Perpetual'',
      ''Expiration Date'' \<mapsto> JStr ''01/01/2030'']"

text \<open>
  Collaborators that answer every call, collaborators whose model is rate limited, and
  collaborators whose extraction call reports an error text without rate-limit indicator
  (the text of the \<^verbatim>\<open>TypeError\<close> above).
\<close>

definition env_good :: env where
  "env_good =
     \<lparr>txt_result = Inr ''Leveransavtal'', docx_result = Inr [''Tarnekokkulepe''],
      pdf_result = Inr [[''Umowa Dostawy'']], translate_result = Inr (Some ''Supply Agreement''),
      extract_result = Inr (PDict model_answer), now_iso = ''2025-01-01T00:00:00''\<rparr>"

definition env_429 :: env where
  "env_429 =
     \<lparr>txt_result = Inr ''Leveransavtal'', docx_result = Inr [''Tarnekokkulepe''],
      pdf_result = Inr [[''Umowa Dostawy'']], translate_result = Inl ''Error code: 429'',
      extract_result = Inl ''Error code: 429'', now_iso = ''2025-01-01T00:00:00''\<rparr>"

definition env_denied :: env where
  "env_denied =
     \<lparr>txt_result = Inr ''Leveransavtal'', docx_result = Inr [''Tarnekokkulepe''],
      pdf_result = Inr [[''Umowa Dostawy'']], translate_result = Inr (Some ''Supply Agreement''),
      extract_result = Inl none_path_error, now_iso = ''2025-01-01T00:00:00''\<rparr>"

text \<open>The answer as the two-call strategy and as the direct strategy hand it on for
  \<open>umowa.pdf\<close>, and the row built from the first.\<close>

definition stamped_answer :: pydict where
  "stamped_answer =
     model_answer(''file_name'' \<mapsto> JStr ''umowa.pdf'',
                  ''extraction_timestamp'' \<mapsto> JStr ''2025-01-01T00:00:00'',
                  ''extraction_method'' \<mapsto> JStr ''two_call_translation'',
                  ''Original File Name'' \<mapsto> JStr ''umowa.pdf'')"

definition direct_answer :: pydict where
  "direct_answer =
     model_answer(''file_name'' \<mapsto> JStr ''umowa.pdf'',
                  ''extraction_timestamp'' \<mapsto> JStr ''2025-01-01T00:00:00'',
                  ''Original File Name'' \<mapsto> JStr ''umowa.pdf'')"

definition row_pdf :: pydict where
  "row_pdf = build_row ManagedIdentityPOC ''umowa.pdf'' stamped_answer"

definition world_good :: "int \<Rightarrow> env" where
  "world_good attempt = env_good"

definition world_429 :: "int \<Rightarrow> env" where
  "world_429 attempt = env_429"

definition world_denied :: "int \<Rightarrow> env" where
  "world_denied attempt = env_denied"

text \<open>A Word file that cannot be parsed, and two batches.\<close>

definition env_unreadable :: env where
  "env_unreadable =
     \<lparr>txt_result = Inl ''invalid start byte'', docx_result = Inl ''Package not found'',
      pdf_result = Inl ''Invalid request'', translate_result = Inr (Some ''Supply Agreement''),
      extract_result = Inr (PDict model_answer), now_iso = ''2025-01-01T00:00:00''\<rparr>"

definition world_unreadable :: "int \<Rightarrow> env" where
  "world_unreadable attempt = env_unreadable"

definition broken_batch :: "work_item list" where
  "broken_batch = [(local_file_info ''contracts/broken.docx'', world_unreadable)]"

definition rate_limited_batch :: "work_item list" where
  "rate_limited_batch = [(item_txt, world_429)]"

definition mixed_batch :: "work_item list" where
  "mixed_batch = [(item_txt, world_429), (item_pdf, world_good)]"

definition mixed_results :: "pydict list" where
  "mixed_results =
     [failure_record ManagedIdentityPOC ''nordic/avtal.txt'' ''Error code: 429 (Rate limit detected)'',
      row_pdf]"

section \<open>Properties\<close>

subsection \<open>Evaluation of concrete runs\<close>

lemma str_in_code:
  "str_in [] s = True"
  "str_in (x # xs) [] = False"
  "str_in (x # xs) (y # ys) = (prefix (x # xs) (y # ys) \<or> str_in (x # xs) ys)"
  by (simp_all add: str_in_def sublist_Cons_right)

lemmas run_simps =
  process_contract_with_retry_def try_block_def read_contract_file_def read_by_extension_def
  extract_text_from_pdf_def extract_text_from_docx_def truthy_def lower_def lower_char_def
  fmt_opt_def handle_extraction_def extract_metadata_direct_def extract_metadata_from_english_def
  translate_to_english_def is_rate_limited_def str_in_code backoff_def time_sleep_def wait_time_def
  float_times_pow2_def posix_sleep_def increment_def upper_error_def dict_get_def store_error_def
  fresh_def upto_rec1 Let_def

lemmas input_simps =
  cfg_default_def cfg_negative_delay_def cfg_zero_delay_def cfg_long_delay_def cfg_no_workers_def
  item_txt_def item_pdf_def item_lost_def env_good_def
  env_429_def env_denied_def world_good_def world_429_def world_denied_def model_answer_def
  none_path_error_def stamped_answer_def direct_answer_def row_pdf_def env_unreadable_def
  world_unreadable_def

subsection \<open>Delays and rows\<close>

lemma delay_less:
  assumes "0 < (r::real)" "1 \<le> a" "a < b"
  shows "r * 2 ^ nat (a - 1) < r * 2 ^ nat (b - 1)"
proof -
  have "nat (a - 1) < nat (b - 1)" using assms by linarith
  then have "(2::real) ^ nat (a - 1) < 2 ^ nat (b - 1)" by simp
  then show ?thesis using assms(1) by simp
qed

lemma delays_increasing:
  assumes "0 < (r::real)" "1 \<le> a"
  shows "sorted_wrt (<) (map (\<lambda>n. r * 2 ^ nat (n - 1)) [a..b])"
proof -
  have "sorted_wrt (\<lambda>x y. r * 2 ^ nat (x - 1) < r * 2 ^ nat (y - 1)) [a..b]"
  proof (rule sorted_wrt_mono_rel [OF _ sorted_wrt_upto])
    fix x y assume "x \<in> set [a..b]" "y \<in> set [a..b]" "x < y"
    then show "r * 2 ^ nat (x - 1) < r * 2 ^ nat (y - 1)"
      using assms by (intro delay_less) auto
  qed
  then show ?thesis by (simp add: sorted_wrt_map)
qed

lemma backoff_accepted:
  "accepted_delay cfg a = Some d \<Longrightarrow> backoff cfg a st = (Inr (), st\<lparr>slept := slept st @ [d]\<rparr>)"
  by (auto simp: accepted_delay_def backoff_def time_sleep_def split: sum.splits option.splits)

lemma backoff_Inr:
  "backoff cfg a st = (Inr u, st') \<Longrightarrow>
   \<exists>d. accepted_delay cfg a = Some d \<and> st' = st\<lparr>slept := slept st @ [d]\<rparr>"
  by (auto simp: accepted_delay_def backoff_def time_sleep_def split: sum.splits option.splits)

lemma backoff_Inl: "backoff cfg a st = (Inl exc, st') \<Longrightarrow> st' = st"
  by (auto simp: backoff_def time_sleep_def split: sum.splits option.splits)

lemma backoff_exit_indep: "fst (backoff cfg a st) = fst (backoff cfg a st')"
  by (auto simp: backoff_def time_sleep_def split: sum.splits option.splits)

lemma delays_acceptedD:
  assumes "delays_accepted cfg" "1 \<le> a" "a < MAX_RETRIES cfg"
  shows "\<exists>d. accepted_delay cfg a = Some d"
proof -
  have "a \<in> set [1..MAX_RETRIES cfg - 1]" using assms(2,3) by simp
  then show ?thesis using assms(1) by (auto simp: delays_accepted_def)
qed

lemma accepted_finite:
  assumes "RETRY_DELAY cfg = Finite r" "0 \<le> r" "1 \<le> i" "i \<le> 1024"
    and "r * 2 ^ nat (i - 1) < 2 ^ 1024"
    and "sleep_raises cfg (Finite (r * 2 ^ nat (i - 1))) = None"
  shows "accepted_delay cfg i = Some (Finite (r * 2 ^ nat (i - 1)))"
proof -
  have "0 \<le> r * 2 ^ nat (i - 1)" using assms(2) by simp
  then have "\<not> r * 2 ^ nat (i - 1) \<le> - (2 ^ 1024)"
    by (smt (verit) zero_less_power)
  then have "float_times_pow2 (Finite r) (nat (i - 1)) = Finite (r * 2 ^ nat (i - 1))"
    using assms(5) by (simp add: float_times_pow2_def)
  then show ?thesis using assms(1,4,6) by (simp add: accepted_delay_def wait_time_def)
qed

lemma fold_update_lookup:
  "fold (\<lambda>field row. row(field \<mapsto> g field)) fs r0 k = (if k \<in> set fs then Some (g k) else r0 k)"
  by (induction fs arbitrary: r0) auto

lemma not_field:
  "''Confidence'' \<notin> set (SIRION_FIELDS v)" "''Notes'' \<notin> set (SIRION_FIELDS v)"
  "''Error'' \<notin> set (SIRION_FIELDS v)" "''Source Language'' \<notin> set (SIRION_FIELDS v)"
  "''Extraction Timestamp'' \<notin> set (SIRION_FIELDS v)" "''File Name'' \<notin> set (SIRION_FIELDS v)"
  "''Folder Path'' \<notin> set (SIRION_FIELDS v)"
  by (cases v; simp add: SIRION_FIELDS_def)+

lemma build_row_field:
  assumes "f \<in> set (SIRION_FIELDS v)"
  shows "build_row v fn md f = Some (dict_get md f (JStr []))"
proof -
  have "f \<noteq> ''Confidence''" "f \<noteq> ''Notes''" using assms not_field by auto
  then show ?thesis using assms by (simp add: build_row_def Let_def fold_update_lookup)
qed

lemma build_row_confidence:
  "build_row v fn md ''Confidence'' = Some (dict_get md ''confidence'' (JStr ''medium''))"
  by (simp add: build_row_def Let_def)

lemma build_row_source_language:
  "build_row v fn md ''Source Language'' = Some (dict_get md ''source_language'' (JStr ''unknown''))"
  by (simp add: build_row_def Let_def fold_update_lookup not_field)

lemma build_row_no_error: "build_row v fn md ''Error'' = None"
  by (cases v) (simp_all add: build_row_def Let_def fold_update_lookup not_field identity_columns_def)

lemma failure_record_error: "failure_record v fn err ''Error'' = Some (JStr err)"
  by (simp add: failure_record_def)

lemma failure_record_other:
  "k \<noteq> ''Error'' \<Longrightarrow> failure_record v fn err k = identity_columns v fn k"
  by (simp add: failure_record_def)

subsection \<open>One attempt\<close>

lemma handle_extraction_exit_indep:
  "fst (handle_extraction v cfg fi tracked a st x) = fst (handle_extraction v cfg fi tracked a st' x)"
proof (cases x)
  case (Inl err)
  obtain y s1 where b1: "backoff cfg a st = (y, s1)" by fastforce
  obtain z s2 where b2: "backoff cfg a st' = (z, s2)" by fastforce
  have "y = z" using backoff_exit_indep [of cfg a st st'] b1 b2 by simp
  then show ?thesis using Inl b1 b2 by (auto simp: handle_extraction_def split: sum.splits)
next
  case (Inr md)
  then show ?thesis by (auto simp: handle_extraction_def Let_def split: option.splits)
qed

lemma try_block_exit_indep:
  "fst (try_block v cfg e fi tracked a st) = fst (try_block v cfg e fi tracked a st')"
  unfolding try_block_def Let_def
  by (auto split: sum.splits option.splits prod.splits simp: handle_extraction_exit_indep)

lemma handle_extraction_Continued:
  assumes "handle_extraction v cfg fi tracked a st x = (Continued, st')"
  shows "a < MAX_RETRIES cfg \<and>
         (\<exists>d. accepted_delay cfg a = Some d \<and> st' = st\<lparr>slept := slept st @ [d]\<rparr>)"
  using assms
  by (auto simp: handle_extraction_def Let_def split: sum.splits option.splits if_splits prod.splits
      dest: backoff_Inr)

lemma try_block_Continued:
  assumes "try_block v cfg e fi tracked a st = (Continued, st')"
  shows "a < MAX_RETRIES cfg \<and>
         (\<exists>d. accepted_delay cfg a = Some d \<and> st' = st\<lparr>slept := slept st @ [d]\<rparr>)"
  using assms unfolding try_block_def Let_def
  by (auto split: sum.splits option.splits prod.splits if_splits dest: handle_extraction_Continued)

lemma handle_extraction_Returned:
  assumes "handle_extraction v cfg fi tracked a st x = (Returned r, st')"
  shows "(\<exists>err. x = Inl err \<and> r = failure_record v (name fi) err) \<or>
         (\<exists>md. x = Inr md \<and> r = build_row v (name fi) md)"
  using assms
  by (auto simp: handle_extraction_def Let_def split: sum.splits option.splits if_splits prod.splits)

lemma try_block_Returned:
  assumes "try_block v cfg e fi tracked a st = (Returned r, st')"
  shows "(\<exists>err. r = failure_record v (name fi) err) \<or>
         (\<exists>md. (extract_metadata_direct v e (name fi) = Inr md \<or>
                extract_metadata_from_english v e (name fi) = Inr md) \<and>
               r = build_row v (name fi) md)"
  using assms unfolding try_block_def Let_def
  by (auto split: sum.splits option.splits prod.splits if_splits dest!: handle_extraction_Returned)

lemma try_block_Raised_slept:
  assumes "try_block v cfg e fi tracked a st = (Raised exc, st')"
  shows "slept st' = slept st"
  using assms unfolding try_block_def Let_def handle_extraction_def increment_def
  by (auto split: sum.splits option.splits prod.splits if_splits dest: backoff_Inl)

lemma try_block_reported:
  assumes "reported_error v cfg e fi = Some err"
  shows "try_block v cfg e fi tracked a st = handle_extraction v cfg fi tracked a st (Inl err)"
  using assms unfolding reported_error_def try_block_def Let_def
  by (auto split: sum.splits option.splits prod.splits if_splits)

lemma try_block_early:
  assumes "early_failure v cfg e fi = Some msg"
  shows "try_block v cfg e fi tracked a st =
           (Returned (failure_record v (name fi) msg), increment tracked st)"
  using assms unfolding early_failure_def try_block_def Let_def
  by (auto split: sum.splits option.splits prod.splits if_splits)

lemma handle_error_retry:
  assumes "a < MAX_RETRIES cfg" "is_rate_limited err" "accepted_delay cfg a = Some d"
  shows "handle_extraction v cfg fi tracked a st (Inl err) =
           (Continued, st\<lparr>slept := slept st @ [d]\<rparr>)"
  using assms by (simp add: handle_extraction_def backoff_accepted)

lemma handle_error_terminal:
  assumes "\<not> (a < MAX_RETRIES cfg \<and> is_rate_limited err)"
  shows "handle_extraction v cfg fi tracked a st (Inl err) =
           (Returned (failure_record v (name fi) err), increment tracked st)"
  using assms by (auto simp add: handle_extraction_def)

lemma increment_slept: "increment tracked (st\<lparr>slept := xs\<rparr>) = (increment tracked st)\<lparr>slept := xs\<rparr>"
  by (simp add: increment_def)

lemma try_block_raised:
  assumes "raised_exception v cfg e fi tracked a = Some exc"
  shows "\<exists>st'. try_block v cfg e fi tracked a st = (Raised exc, st') \<and> slept st' = slept st"
proof -
  have "fst (try_block v cfg e fi tracked a fresh) = Raised exc"
    using assms by (auto simp: raised_exception_def split: attempt_exit.splits)
  then have "fst (try_block v cfg e fi tracked a st) = Raised exc"
    using try_block_exit_indep [of v cfg e fi tracked a st fresh] by simp
  then obtain st' where "try_block v cfg e fi tracked a st = (Raised exc, st')"
    by (cases "try_block v cfg e fi tracked a st") auto
  then show ?thesis using try_block_Raised_slept by blast
qed

subsection \<open>The loop\<close>

lemma retry_loop_exit_indep:
  "fst (retry_loop v cfg world fi tracked as st) = fst (retry_loop v cfg world fi tracked as st')"
proof (induction as arbitrary: st st')
  case Nil
  show ?case by simp
next
  case (Cons a as)
  obtain x s1 where b1: "try_block v cfg (world a) fi tracked a st = (x, s1)" by fastforce
  obtain y s2 where b2: "try_block v cfg (world a) fi tracked a st' = (y, s2)" by fastforce
  have xy: "x = y" using try_block_exit_indep [of v cfg "world a" fi tracked a st st'] b1 b2 by simp
  show ?case
  proof (cases x)
    case (Returned r)
    then show ?thesis using b1 b2 xy by simp
  next
    case Continued
    then show ?thesis using b1 b2 xy Cons.IH [of s1 s2] by simp
  next
    case (Raised exc)
    obtain p t1 where c1: "backoff cfg a s1 = (p, t1)" by fastforce
    obtain q t2 where c2: "backoff cfg a s2 = (q, t2)" by fastforce
    have "p = q" using backoff_exit_indep [of cfg a s1 s2] c1 c2 by simp
    then show ?thesis using Raised b1 b2 xy c1 c2 Cons.IH [of t1 t2]
      by (auto split: sum.splits)
  qed
qed

lemma process_result_indep:
  "fst (process_contract_with_retry v cfg world fi tracked st) =
   fst (process_contract_with_retry v cfg world fi tracked st')"
proof -
  let ?as = "[1..MAX_RETRIES cfg]"
  obtain x s1 where b1: "retry_loop v cfg world fi tracked ?as st = (x, s1)" by fastforce
  obtain y s2 where b2: "retry_loop v cfg world fi tracked ?as st' = (y, s2)" by fastforce
  have "x = y" using retry_loop_exit_indep [of v cfg world fi tracked ?as st st'] b1 b2 by simp
  then show ?thesis using b1 b2
    by (auto simp: process_contract_with_retry_def split: loop_exit.splits)
qed

lemma retry_loop_not_Escaped:
  assumes "\<forall>a\<in>set as. a < MAX_RETRIES cfg \<longrightarrow> accepted_delay cfg a \<noteq> None"
  shows "fst (retry_loop v cfg world fi tracked as st) \<noteq> Escaped exc"
  using assms
proof (induction as arbitrary: st)
  case Nil
  show ?case by simp
next
  case (Cons a as)
  obtain x s1 where b1: "try_block v cfg (world a) fi tracked a st = (x, s1)" by fastforce
  have ih: "fst (retry_loop v cfg world fi tracked as s) \<noteq> Escaped exc" for s
    using Cons by simp
  show ?case
  proof (cases x)
    case (Returned r)
    then show ?thesis using b1 by simp
  next
    case Continued
    then show ?thesis using b1 ih by simp
  next
    case (Raised e)
    show ?thesis
    proof (cases "a < MAX_RETRIES cfg")
      case True
      then obtain d where "accepted_delay cfg a = Some d" using Cons.prems by auto
      then show ?thesis using Raised b1 True ih by (simp add: backoff_accepted)
    next
      case False
      then show ?thesis using Raised b1 by simp
    qed
  qed
qed

lemma retry_loop_Exhausted:
  assumes "retry_loop v cfg world fi tracked as st = (Exhausted, st')"
  shows "\<forall>a\<in>set as. a < MAX_RETRIES cfg"
  using assms
proof (induction as arbitrary: st)
  case Nil
  show ?case by simp
next
  case (Cons a as)
  obtain x s1 where b1: "try_block v cfg (world a) fi tracked a st = (x, s1)" by fastforce
  show ?case
  proof (cases x)
    case (Returned r)
    then show ?thesis using b1 Cons.prems by simp
  next
    case Continued
    then show ?thesis using b1 Cons try_block_Continued [of v cfg "world a" fi tracked a st s1] by simp
  next
    case (Raised e)
    then show ?thesis using b1 Cons
      by (auto split: if_splits sum.splits prod.splits)
  qed
qed

lemma retry_loop_Result:
  assumes "retry_loop v cfg world fi tracked as st = (Result r, st')"
  shows "(\<exists>err. r = failure_record v (name fi) err) \<or>
         (\<exists>a\<in>set as. \<exists>md. (extract_metadata_direct v (world a) (name fi) = Inr md \<or>
                extract_metadata_from_english v (world a) (name fi) = Inr md) \<and>
               r = build_row v (name fi) md)"
  using assms
proof (induction as arbitrary: st)
  case Nil
  then show ?case by simp
next
  case (Cons a as)
  obtain x s1 where b1: "try_block v cfg (world a) fi tracked a st = (x, s1)" by fastforce
  show ?case
  proof (cases x)
    case (Returned r')
    then have "r' = r" using b1 Cons.prems by simp
    then show ?thesis using try_block_Returned [of v cfg "world a" fi tracked a st r s1] b1 Returned
      by auto
  next
    case Continued
    then have "retry_loop v cfg world fi tracked as s1 = (Result r, st')" using b1 Cons.prems by simp
    from Cons.IH [OF this] show ?thesis by auto
  next
    case (Raised e)
    show ?thesis
    proof (cases "a < MAX_RETRIES cfg")
      case True
      then obtain s2 where "retry_loop v cfg world fi tracked as s2 = (Result r, st')"
        using b1 Raised Cons.prems by (auto split: if_splits sum.splits prod.splits)
      from Cons.IH [OF this] show ?thesis by auto
    next
      case False
      then show ?thesis using b1 Raised Cons.prems by auto
    qed
  qed
qed

lemma loop_returns:
  assumes "1 \<le> MAX_RETRIES cfg" "delays_accepted cfg"
  shows "\<exists>r st'. retry_loop v cfg world fi tracked [1..MAX_RETRIES cfg] st = (Result r, st')"
proof -
  obtain x s1 where b: "retry_loop v cfg world fi tracked [1..MAX_RETRIES cfg] st = (x, s1)"
    by fastforce
  have "x \<noteq> Exhausted"
  proof
    assume "x = Exhausted"
    with b retry_loop_Exhausted [of v cfg world fi tracked "[1..MAX_RETRIES cfg]" st s1]
    have "\<forall>a\<in>set [1..MAX_RETRIES cfg]. a < MAX_RETRIES cfg" by simp
    then show False using assms(1) by auto
  qed
  moreover have acc: "\<forall>a\<in>set [1..MAX_RETRIES cfg]. a < MAX_RETRIES cfg \<longrightarrow> accepted_delay cfg a \<noteq> None"
    using delays_acceptedD [OF assms(2)] by auto
  have "\<And>exc. x \<noteq> Escaped exc"
    using retry_loop_not_Escaped [OF acc, of v world fi tracked st] b by auto
  ultimately show ?thesis using b by (cases x) auto
qed

lemma step_retry:
  assumes "reported_error v cfg (world a) fi = Some err" "is_rate_limited err"
    "a < MAX_RETRIES cfg" "accepted_delay cfg a = Some d"
  shows "retry_loop v cfg world fi tracked (a # rest) st =
           retry_loop v cfg world fi tracked rest (st\<lparr>slept := slept st @ [d]\<rparr>)"
  using try_block_reported [OF assms(1)] handle_error_retry [OF assms(3) assms(2) assms(4)]
  by simp

lemma step_terminal:
  assumes "reported_error v cfg (world a) fi = Some err"
    "\<not> (is_rate_limited err \<and> a < MAX_RETRIES cfg)"
  shows "retry_loop v cfg world fi tracked (a # rest) st =
           (Result (failure_record v (name fi) err), increment tracked st)"
proof -
  have "\<not> (a < MAX_RETRIES cfg \<and> is_rate_limited err)" using assms(2) by auto
  then show ?thesis using try_block_reported [OF assms(1)] handle_error_terminal by simp
qed

lemma step_early:
  assumes "early_failure v cfg (world a) fi = Some msg"
  shows "retry_loop v cfg world fi tracked (a # rest) st =
           (Result (failure_record v (name fi) msg), increment tracked st)"
  using try_block_early [OF assms] by simp

lemma step_raised_retry:
  assumes "raised_exception v cfg (world a) fi tracked a = Some exc"
    "a < MAX_RETRIES cfg" "accepted_delay cfg a = Some d"
  shows "\<exists>st1. slept st1 = slept st \<and>
           retry_loop v cfg world fi tracked (a # rest) st =
             retry_loop v cfg world fi tracked rest (st1\<lparr>slept := slept st1 @ [d]\<rparr>)"
proof -
  obtain st1 where s: "try_block v cfg (world a) fi tracked a st = (Raised exc, st1)"
    "slept st1 = slept st"
    using try_block_raised [OF assms(1)] by blast
  then show ?thesis using assms(2) backoff_accepted [OF assms(3)] by auto
qed

lemma step_raised_terminal:
  assumes "raised_exception v cfg (world a) fi tracked a = Some exc"
    "\<not> a < MAX_RETRIES cfg"
  shows "\<exists>st1. slept st1 = slept st \<and>
           retry_loop v cfg world fi tracked (a # rest) st =
             (Result (failure_record v (name fi) exc), increment tracked st1)"
proof -
  obtain st1 where s: "try_block v cfg (world a) fi tracked a st = (Raised exc, st1)"
    "slept st1 = slept st"
    using try_block_raised [OF assms(1)] by blast
  then show ?thesis using assms(2) by auto
qed

lemma loop_rate_limited:
  assumes "a \<le> k" and kM: "k \<le> MAX_RETRIES cfg"
    and "\<forall>i. a \<le> i \<and> i < k \<longrightarrow> accepted_delay cfg i = Some (dl i) \<and>
           (\<exists>err. reported_error v cfg (world i) fi = Some err \<and> is_rate_limited err)"
    and last: "reported_error v cfg (world k) fi = Some err"
    and stop: "k = MAX_RETRIES cfg \<or> \<not> is_rate_limited err"
  shows "retry_loop v cfg world fi tracked [a..MAX_RETRIES cfg] st =
           (Result (failure_record v (name fi) err),
            increment tracked (st\<lparr>slept := slept st @ map dl [a..k - 1]\<rparr>))"
  using assms(1,3)
proof (induction "nat (k - a)" arbitrary: a st)
  case 0
  then have ak: "a = k" by simp
  have "\<not> (is_rate_limited err \<and> k < MAX_RETRIES cfg)" using stop by auto
  from step_terminal [where world = world and a = k, OF last this] show ?case
    using ak kM by (simp add: upto_rec1 [of k "MAX_RETRIES cfg"])
next
  case (Suc n)
  then have ak: "a < k" by linarith
  then obtain e1 where e1: "reported_error v cfg (world a) fi = Some e1" "is_rate_limited e1"
    and d: "accepted_delay cfg a = Some (dl a)"
    using Suc.prems by auto
  have aM: "a < MAX_RETRIES cfg" using ak kM by simp
  let ?st1 = "st\<lparr>slept := slept st @ [dl a]\<rparr>"
  have u1: "[a..MAX_RETRIES cfg] = a # [a + 1..MAX_RETRIES cfg]" using aM by (simp add: upto_rec1)
  have u2: "[a..k - 1] = a # [a + 1..k - 1]" using ak by (simp add: upto_rec1)
  have step: "retry_loop v cfg world fi tracked [a..MAX_RETRIES cfg] st =
                retry_loop v cfg world fi tracked [a + 1..MAX_RETRIES cfg] ?st1"
    using step_retry [where world = world and a = a, OF e1 aM d] u1 by simp
  have n: "n = nat (k - (a + 1))" using Suc.hyps(2) by linarith
  have rest: "retry_loop v cfg world fi tracked [a + 1..MAX_RETRIES cfg] ?st1 =
           (Result (failure_record v (name fi) err),
            increment tracked (?st1\<lparr>slept := slept ?st1 @ map dl [a + 1..k - 1]\<rparr>))"
    using Suc.hyps(1) [OF n, of ?st1] ak Suc.prems(2) by simp
  show ?case using step rest by (simp add: u2)
qed

lemma loop_raising:
  assumes "a \<le> MAX_RETRIES cfg"
    and "\<forall>i. a \<le> i \<and> i \<le> MAX_RETRIES cfg \<longrightarrow>
           raised_exception v cfg (world i) fi tracked i = Some (exc i)"
    and "\<forall>i. a \<le> i \<and> i < MAX_RETRIES cfg \<longrightarrow> accepted_delay cfg i = Some (dl i)"
  shows "\<exists>st'. retry_loop v cfg world fi tracked [a..MAX_RETRIES cfg] st =
           (Result (failure_record v (name fi) (exc (MAX_RETRIES cfg))), st') \<and>
           slept st' = slept st @ map dl [a..MAX_RETRIES cfg - 1]"
  using assms
proof (induction "nat (MAX_RETRIES cfg - a)" arbitrary: a st)
  case 0
  then have aM: "a = MAX_RETRIES cfg" by simp
  then have r: "raised_exception v cfg (world a) fi tracked a = Some (exc a)" using "0.prems" by simp
  have "\<not> a < MAX_RETRIES cfg" using aM by simp
  from step_raised_terminal [where world = world and a = a and st = st and rest = "[]", OF r this] show ?case
    using aM by (auto simp: upto_rec1 [of a a] increment_def)
next
  case (Suc n)
  then have aM: "a < MAX_RETRIES cfg" by linarith
  have r: "raised_exception v cfg (world a) fi tracked a = Some (exc a)" using Suc.prems aM by simp
  have d: "accepted_delay cfg a = Some (dl a)" using Suc.prems aM by simp
  have u1: "[a..MAX_RETRIES cfg] = a # [a + 1..MAX_RETRIES cfg]" using aM by (simp add: upto_rec1)
  have u2: "[a..MAX_RETRIES cfg - 1] = a # [a + 1..MAX_RETRIES cfg - 1]" using aM by (simp add: upto_rec1)
  obtain s1 where s1: "slept s1 = slept st"
    "retry_loop v cfg world fi tracked [a..MAX_RETRIES cfg] st =
       retry_loop v cfg world fi tracked [a + 1..MAX_RETRIES cfg] (s1\<lparr>slept := slept s1 @ [dl a]\<rparr>)"
    using step_raised_retry [where world = world and a = a and st = st and rest = "[a + 1..MAX_RETRIES cfg]", OF r aM d] u1 by auto
  let ?s2 = "s1\<lparr>slept := slept s1 @ [dl a]\<rparr>"
  have n: "n = nat (MAX_RETRIES cfg - (a + 1))" using Suc.hyps(2) by linarith
  obtain st' where rest: "retry_loop v cfg world fi tracked [a + 1..MAX_RETRIES cfg] ?s2 =
           (Result (failure_record v (name fi) (exc (MAX_RETRIES cfg))), st')"
      "slept st' = slept ?s2 @ map dl [a + 1..MAX_RETRIES cfg - 1]"
    using Suc.hyps(1) [OF n, of ?s2] aM Suc.prems(2,3) by auto
  show ?case using s1 rest by (simp add: u2)
qed

subsection \<open>The Retry Controller\<close>

lemma default_delays:
  "accepted_delay cfg_default 1 = Some (Finite 2)"
  "accepted_delay cfg_default 2 = Some (Finite 4)"
  by (simp_all add: accepted_delay_def wait_time_def float_times_pow2_def posix_sleep_def
      cfg_default_def)

lemma default_delays_accepted: "delays_accepted cfg_default"
proof -
  have "MAX_RETRIES cfg_default - 1 = 2" by (simp add: cfg_default_def)
  then show ?thesis using default_delays by (simp add: delays_accepted_def upto_rec1)
qed

text \<open>
  C9, as stated, fails: with \<^verbatim>\<open>MAX_RETRIES = 3\<close> and a negative \<^verbatim>\<open>RETRY_DELAY\<close>, a rate
  limited first attempt calls \<^verbatim>\<open>time.sleep\<close> with a negative length inside the \<^verbatim>\<open>try\<close>;
  the handler calls it again, and that \<^verbatim>\<open>ValueError\<close> reaches the caller. A delay of
  1e10 seconds does the same with an \<^verbatim>\<open>OverflowError\<close>.
\<close>

theorem negative_delay_escapes:
  "1 \<le> MAX_RETRIES cfg_negative_delay \<and>
   process_contract_with_retry MetadataExtractionPOC cfg_negative_delay world_429 item_txt True fresh
     = (Inl ''sleep length must be non-negative'', fresh) \<and>
   1 \<le> MAX_RETRIES cfg_long_delay \<and>
   process_contract_with_retry MetadataExtractionPOC cfg_long_delay world_429 item_txt True fresh
     = (Inl ''timestamp out of range for platform time_t'', fresh)"
  by (simp add: run_simps input_simps)

text \<open>
  C9, amended: when \<^verbatim>\<open>MAX_RETRIES\<close> is at least 1 and every delay
  \<^verbatim>\<open>RETRY_DELAY * 2 ** (n - 1)\<close> of an attempt \<open>n\<close> below \<^verbatim>\<open>MAX_RETRIES\<close> can be computed
  and is a length that \<^verbatim>\<open>time.sleep\<close> takes, then for every work item and whatever the
  collaborators answer or raise, the loop ends with a \<^verbatim>\<open>return\<close> inside it: the call
  hands a result dictionary to its caller, no exception reaches the caller, and the
  fallback after the loop is not reached.
\<close>

theorem process_returns_result:
  assumes "1 \<le> MAX_RETRIES cfg" and "delays_accepted cfg"
  shows "\<exists>r st'. retry_loop v cfg world fi tracked [1..MAX_RETRIES cfg] st = (Result r, st') \<and>
                 process_contract_with_retry v cfg world fi tracked st = (Inr r, st')"
proof -
  obtain r st' where "retry_loop v cfg world fi tracked [1..MAX_RETRIES cfg] st = (Result r, st')"
    using loop_returns [OF assms] by blast
  then show ?thesis by (auto simp: process_contract_with_retry_def)
qed

text \<open>
  C9, amended, at the default configuration (three attempts, the delays 2 and 4), for a
  blob whose download failed.
\<close>

theorem process_returns_result_witness:
  "1 \<le> MAX_RETRIES cfg_default \<and> delays_accepted cfg_default \<and>
   accepted_delay cfg_default 1 = Some (Finite 2) \<and> accepted_delay cfg_default 2 = Some (Finite 4) \<and>
   (\<exists>r st'. retry_loop ManagedIdentityPOC cfg_default world_429 item_lost True
               [1..MAX_RETRIES cfg_default] fresh = (Result r, st') \<and>
            process_contract_with_retry ManagedIdentityPOC cfg_default world_429 item_lost True fresh
              = (Inr r, st'))"
proof -
  have h1: "1 \<le> MAX_RETRIES cfg_default" by (simp add: cfg_default_def)
  show ?thesis
    using h1 default_delays_accepted default_delays
      process_returns_result [OF h1 default_delays_accepted, of ManagedIdentityPOC world_429
        item_lost True fresh]
    by blast
qed

text \<open>
  C1, as stated, fails: under the default configuration a PDF goes through the translation
  call first; when that call is rate limited, the item ends at once with a translation
  error, although two more attempts remain. No delay is slept. And where the extraction
  call is the rate-limited one, a \<^verbatim>\<open>RETRY_DELAY\<close> of 0 gives the delays 0 and 0, which
  do not increase.
\<close>

theorem rate_limited_translation_not_retried:
  "is_rate_limited ''Translation error: Error code: 429'' \<and>
   MAX_RETRIES cfg_default = 3 \<and>
   process_contract_with_retry ManagedIdentityPOC cfg_default world_429 item_pdf True fresh
     = (Inr (failure_record ManagedIdentityPOC ''umowa.pdf'' ''Translation error: Error code: 429''),
        \<lparr>completed = 1, slept = []\<rparr>) \<and>
   process_contract_with_retry ManagedIdentityPOC cfg_zero_delay world_429 item_txt True fresh
     = (Inr (failure_record ManagedIdentityPOC ''nordic/avtal.txt''
               ''Error code: 429 (Rate limit detected)''),
        \<lparr>completed = 1, slept = [Finite 0, Finite 0]\<rparr>)"
  by (simp add: run_simps input_simps)

text \<open>
  C1, amended. At every attempt \<open>a\<close> of the loop, whatever the attempts before it did
  (\<open>rest\<close> are the attempts still to come, \<open>st\<close> is the state reached):
  \<^item> if the error text that the metadata-extraction call reports has a rate-limit
    indicator and \<open>a\<close> is below \<^verbatim>\<open>MAX_RETRIES\<close>, the delay
    \<^verbatim>\<open>RETRY_DELAY * 2 ** (a - 1)\<close> is slept and the loop goes on with the next attempt
    (provided the delay can be computed and \<^verbatim>\<open>time.sleep\<close> takes it);
  \<^item> if that text has no indicator, or \<open>a\<close> is the last attempt, the error is final at
    once;
  \<^item> a read error or a translation error is final at once, whatever its text.

  So an item whose extraction call is rate limited at the attempts before \<open>k\<close> and which
  ends at attempt \<open>k\<close> has been retried \<open>k - 1\<close> times, at most \<^verbatim>\<open>MAX_RETRIES - 1\<close>, and the
  delays slept are \<^verbatim>\<open>RETRY_DELAY * 2 ** (n - 1)\<close> for \<open>n\<close> from 1 to \<open>k - 1\<close>; they
  increase strictly when \<^verbatim>\<open>RETRY_DELAY\<close> is positive.
\<close>

theorem rate_limited_extraction_retried:
  "(reported_error v cfg (world a) fi = Some err \<and> is_rate_limited err \<and>
    a < MAX_RETRIES cfg \<and> accepted_delay cfg a = Some d \<longrightarrow>
      wait_time cfg a = Inr d \<and>
      d = float_times_pow2 (RETRY_DELAY cfg) (nat (a - 1)) \<and>
      retry_loop v cfg world fi tracked (a # rest) st =
        retry_loop v cfg world fi tracked rest (st\<lparr>slept := slept st @ [d]\<rparr>)) \<and>
   (reported_error v cfg (world a) fi = Some err \<and>
    \<not> (is_rate_limited err \<and> a < MAX_RETRIES cfg) \<longrightarrow>
      retry_loop v cfg world fi tracked (a # rest) st =
        (Result (failure_record v (name fi) err), increment tracked st)) \<and>
   (early_failure v cfg (world a) fi = Some msg \<longrightarrow>
      retry_loop v cfg world fi tracked (a # rest) st =
        (Result (failure_record v (name fi) msg), increment tracked st)) \<and>
   (1 \<le> k \<and> k \<le> MAX_RETRIES cfg \<and> k \<le> 1025 \<and>
    RETRY_DELAY cfg = Finite r \<and> 0 \<le> r \<and> r * 2 ^ nat (k - 2) < 2 ^ 1024 \<and>
    (\<forall>i. 1 \<le> i \<and> i < k \<longrightarrow>
       sleep_raises cfg (Finite (r * 2 ^ nat (i - 1))) = None \<and>
       (\<exists>e. reported_error v cfg (world i) fi = Some e \<and> is_rate_limited e)) \<and>
    reported_error v cfg (world k) fi = Some last_err \<and>
    (k = MAX_RETRIES cfg \<or> \<not> is_rate_limited last_err) \<longrightarrow>
      process_contract_with_retry v cfg world fi tracked st =
        (Inr (failure_record v (name fi) last_err),
         increment tracked
           (st\<lparr>slept := slept st @ map (\<lambda>n. Finite (r * 2 ^ nat (n - 1))) [1..k - 1]\<rparr>)) \<and>
      length [1..k - 1] = nat (k - 1) \<and>
      nat (k - 1) \<le> nat (MAX_RETRIES cfg - 1) \<and>
      (0 < r \<longrightarrow> sorted_wrt (<) (map (\<lambda>n. r * 2 ^ nat (n - 1)) [1..k - 1])))"
proof (intro conjI impI)
  assume h: "reported_error v cfg (world a) fi = Some err \<and> is_rate_limited err \<and>
    a < MAX_RETRIES cfg \<and> accepted_delay cfg a = Some d"
  then show "wait_time cfg a = Inr d"
    by (auto simp: accepted_delay_def split: sum.splits option.splits)
  then show "d = float_times_pow2 (RETRY_DELAY cfg) (nat (a - 1))"
    by (auto simp: wait_time_def split: if_splits)
  show "retry_loop v cfg world fi tracked (a # rest) st =
        retry_loop v cfg world fi tracked rest (st\<lparr>slept := slept st @ [d]\<rparr>)"
    using h step_retry [where world = world and a = a] by blast
next
  assume "reported_error v cfg (world a) fi = Some err \<and>
    \<not> (is_rate_limited err \<and> a < MAX_RETRIES cfg)"
  then show "retry_loop v cfg world fi tracked (a # rest) st =
        (Result (failure_record v (name fi) err), increment tracked st)"
    using step_terminal [where world = world and a = a] by blast
next
  assume "early_failure v cfg (world a) fi = Some msg"
  then show "retry_loop v cfg world fi tracked (a # rest) st =
        (Result (failure_record v (name fi) msg), increment tracked st)"
    using step_early [where world = world and a = a] by blast
next
  assume h: "1 \<le> k \<and> k \<le> MAX_RETRIES cfg \<and> k \<le> 1025 \<and>
    RETRY_DELAY cfg = Finite r \<and> 0 \<le> r \<and> r * 2 ^ nat (k - 2) < 2 ^ 1024 \<and>
    (\<forall>i. 1 \<le> i \<and> i < k \<longrightarrow>
       sleep_raises cfg (Finite (r * 2 ^ nat (i - 1))) = None \<and>
       (\<exists>e. reported_error v cfg (world i) fi = Some e \<and> is_rate_limited e)) \<and>
    reported_error v cfg (world k) fi = Some last_err \<and>
    (k = MAX_RETRIES cfg \<or> \<not> is_rate_limited last_err)"
  have acc: "accepted_delay cfg i = Some (Finite (r * 2 ^ nat (i - 1)))" if i: "1 \<le> i" "i < k" for i
  proof -
    have "nat (i - 1) \<le> nat (k - 2)" using i by linarith
    then have "(2::real) ^ nat (i - 1) \<le> 2 ^ nat (k - 2)" by simp
    then have "r * 2 ^ nat (i - 1) \<le> r * 2 ^ nat (k - 2)" using h by (simp add: mult_left_mono)
    then have "r * 2 ^ nat (i - 1) < 2 ^ 1024" using h by linarith
    moreover have "i \<le> 1024" using i h by linarith
    ultimately show ?thesis using accepted_finite [of cfg r i] h i by simp
  qed
  have "retry_loop v cfg world fi tracked [1..MAX_RETRIES cfg] st =
           (Result (failure_record v (name fi) last_err),
            increment tracked
              (st\<lparr>slept := slept st @ map (\<lambda>n. Finite (r * 2 ^ nat (n - 1))) [1..k - 1]\<rparr>))"
    using loop_rate_limited [where world = world and a = 1 and k = k and err = last_err
        and dl = "\<lambda>n. Finite (r * 2 ^ nat (n - 1))"] h acc
    by simp
  then show "process_contract_with_retry v cfg world fi tracked st =
        (Inr (failure_record v (name fi) last_err),
         increment tracked
           (st\<lparr>slept := slept st @ map (\<lambda>n. Finite (r * 2 ^ nat (n - 1))) [1..k - 1]\<rparr>))"
    by (simp add: process_contract_with_retry_def)
  show "length [1..k - 1] = nat (k - 1)" by simp
  have "k \<le> MAX_RETRIES cfg" using h by blast
  then show "nat (k - 1) \<le> nat (MAX_RETRIES cfg - 1)" by simp
  assume "0 < r"
  then show "sorted_wrt (<) (map (\<lambda>n. r * 2 ^ nat (n - 1)) [1..k - 1])"
    using delays_increasing [of r 1 "k - 1"] by simp
qed

text \<open>
  C1, amended, at the default configuration: a text file whose extraction call is rate
  limited at every attempt is retried after the first attempt, ends at the third, and
  has slept the delays 2 and 4; an extraction error without indicator and a rate-limited
  translation end the item at the first attempt.
\<close>

theorem rate_limited_extraction_retried_witness:
  "reported_error ManagedIdentityPOC cfg_default (world_429 1) item_txt
     = Some ''Error code: 429 (Rate limit detected)'' \<and>
   is_rate_limited ''Error code: 429 (Rate limit detected)'' \<and>
   1 < MAX_RETRIES cfg_default \<and>
   accepted_delay cfg_default 1 = Some (Finite 2) \<and>
   wait_time cfg_default 1 = Inr (Finite 2) \<and>
   retry_loop ManagedIdentityPOC cfg_default world_429 item_txt True (1 # [2, 3]) fresh
     = retry_loop ManagedIdentityPOC cfg_default world_429 item_txt True [2, 3]
         (fresh\<lparr>slept := slept fresh @ [Finite 2]\<rparr>) \<and>
   reported_error ManagedIdentityPOC cfg_default (world_denied 1) item_txt = Some none_path_error \<and>
   \<not> is_rate_limited none_path_error \<and>
   retry_loop ManagedIdentityPOC cfg_default world_denied item_txt True (1 # [2, 3]) fresh
     = (Result (failure_record ManagedIdentityPOC (name item_txt) none_path_error),
        increment True fresh) \<and>
   early_failure ManagedIdentityPOC cfg_default (world_429 1) item_pdf
     = Some ''Translation error: Error code: 429'' \<and>
   is_rate_limited ''Translation error: Error code: 429'' \<and>
   retry_loop ManagedIdentityPOC cfg_default world_429 item_pdf True (1 # [2, 3]) fresh
     = (Result (failure_record ManagedIdentityPOC (name item_pdf)
                  ''Translation error: Error code: 429''),
        increment True fresh) \<and>
   process_contract_with_retry ManagedIdentityPOC cfg_default world_429 item_txt True fresh
     = (Inr (failure_record ManagedIdentityPOC (name item_txt)
               ''Error code: 429 (Rate limit detected)''),
        \<lparr>completed = 1, slept = [Finite 2, Finite 4]\<rparr>) \<and>
   sorted_wrt (<) (map (\<lambda>n. 2 * 2 ^ nat (n - 1)) [1..3 - 1] :: real list)"
proof -
  let ?e = "''Error code: 429 (Rate limit detected)''"
  let ?t = "''Translation error: Error code: 429''"
  have rep: "reported_error ManagedIdentityPOC cfg_default (world_429 i) item_txt = Some ?e" for i
    by (simp add: reported_error_def run_simps input_simps)
  have rl: "is_rate_limited ?e"
    by (simp add: is_rate_limited_def str_in_code lower_def lower_char_def)
  have m1: "1 < MAX_RETRIES cfg_default" by (simp add: cfg_default_def)
  have m3: "3 \<le> MAX_RETRIES cfg_default" by (simp add: cfg_default_def)
  have m3': "3 = MAX_RETRIES cfg_default \<or> \<not> is_rate_limited ?e" by (simp add: cfg_default_def)
  have rd: "RETRY_DELAY cfg_default = Finite 2" by (simp add: cfg_default_def)
  have w1: "wait_time cfg_default 1 = Inr (Finite 2)"
    by (simp add: wait_time_def float_times_pow2_def cfg_default_def)
  have den: "reported_error ManagedIdentityPOC cfg_default (world_denied 1) item_txt
      = Some none_path_error"
    by (simp add: reported_error_def run_simps input_simps)
  have nrl: "\<not> is_rate_limited none_path_error"
    by (simp add: is_rate_limited_def str_in_code lower_def lower_char_def none_path_error_def)
  have early: "early_failure ManagedIdentityPOC cfg_default (world_429 1) item_pdf = Some ?t"
    by (simp add: early_failure_def run_simps input_simps)
  have trl: "is_rate_limited ?t"
    by (simp add: is_rate_limited_def str_in_code lower_def lower_char_def)
  have sl: "sleep_raises cfg_default (Finite (2 * 2 ^ nat (i - 1))) = None" if "1 \<le> i \<and> i < 3" for i
  proof -
    have "i = 1 \<or> i = 2" using that by linarith
    then show ?thesis by (auto simp: cfg_default_def posix_sleep_def)
  qed
  have all: "\<forall>i. 1 \<le> i \<and> i < 3 \<longrightarrow>
       sleep_raises cfg_default (Finite (2 * 2 ^ nat (i - 1))) = None \<and>
       (\<exists>e. reported_error ManagedIdentityPOC cfg_default (world_429 i) item_txt = Some e \<and>
            is_rate_limited e)"
    using sl rep rl by blast
  have ev: "increment True
       (fresh\<lparr>slept := slept fresh @ map (\<lambda>n. Finite (2 * 2 ^ nat (n - 1))) [1..3 - 1]\<rparr>)
     = \<lparr>completed = 1, slept = [Finite 2, Finite 4]\<rparr>"
    by (simp add: increment_def fresh_def upto_rec1)
  have small: "(2::real) * 2 ^ nat (3 - 2) < 2 ^ 1024" by simp
  note T1 = rate_limited_extraction_retried [where v = ManagedIdentityPOC and cfg = cfg_default
      and world = world_429 and a = 1 and fi = item_txt and err = ?e and d = "Finite 2"
      and tracked = True and rest = "[2, 3]" and st = fresh and k = 3 and r = 2
      and last_err = ?e and msg = ?t]
  note T2 = rate_limited_extraction_retried [where v = ManagedIdentityPOC and cfg = cfg_default
      and world = world_denied and a = 1 and fi = item_txt and err = none_path_error
      and tracked = True and rest = "[2, 3]" and st = fresh]
  note T3 = rate_limited_extraction_retried [where v = ManagedIdentityPOC and cfg = cfg_default
      and world = world_429 and a = 1 and fi = item_pdf and msg = ?t
      and tracked = True and rest = "[2, 3]" and st = fresh]
  have p1: "reported_error ManagedIdentityPOC cfg_default (world_429 1) item_txt = Some ?e \<and>
     is_rate_limited ?e \<and> 1 < MAX_RETRIES cfg_default \<and>
     accepted_delay cfg_default 1 = Some (Finite 2)"
    by (intro conjI) (rule rep rl m1 default_delays(1))+
  have c1: "retry_loop ManagedIdentityPOC cfg_default world_429 item_txt True (1 # [2, 3]) fresh
     = retry_loop ManagedIdentityPOC cfg_default world_429 item_txt True [2, 3]
         (fresh\<lparr>slept := slept fresh @ [Finite 2]\<rparr>)"
    using mp [OF T1 [THEN conjunct1] p1] by (elim conjE)
  have p2: "reported_error ManagedIdentityPOC cfg_default (world_denied 1) item_txt
       = Some none_path_error \<and>
     \<not> (is_rate_limited none_path_error \<and> 1 < MAX_RETRIES cfg_default)"
    using den nrl by (intro conjI) (assumption, blast)
  have c2: "retry_loop ManagedIdentityPOC cfg_default world_denied item_txt True (1 # [2, 3]) fresh
     = (Result (failure_record ManagedIdentityPOC (name item_txt) none_path_error),
        increment True fresh)"
    using mp [OF T2 [THEN conjunct2, THEN conjunct1] p2] .
  have c3: "retry_loop ManagedIdentityPOC cfg_default world_429 item_pdf True (1 # [2, 3]) fresh
     = (Result (failure_record ManagedIdentityPOC (name item_pdf) ?t), increment True fresh)"
    using mp [OF T3 [THEN conjunct2, THEN conjunct2, THEN conjunct1] early] .
  have p4: "(1::int) \<le> 3 \<and> 3 \<le> MAX_RETRIES cfg_default \<and> (3::int) \<le> 1025 \<and>
     RETRY_DELAY cfg_default = Finite 2 \<and> (0::real) \<le> 2 \<and>
     (2::real) * 2 ^ nat (3 - 2) < 2 ^ 1024 \<and>
     (\<forall>i. 1 \<le> i \<and> i < 3 \<longrightarrow>
       sleep_raises cfg_default (Finite (2 * 2 ^ nat (i - 1))) = None \<and>
       (\<exists>e. reported_error ManagedIdentityPOC cfg_default (world_429 i) item_txt = Some e \<and>
            is_rate_limited e)) \<and>
     reported_error ManagedIdentityPOC cfg_default (world_429 3) item_txt = Some ?e \<and>
     (3 = MAX_RETRIES cfg_default \<or> \<not> is_rate_limited ?e)"
  proof (intro conjI)
    show "(1::int) \<le> 3" by simp
    show "3 \<le> MAX_RETRIES cfg_default" by (rule m3)
    show "(3::int) \<le> 1025" by simp
    show "RETRY_DELAY cfg_default = Finite 2" by (rule rd)
    show "(0::real) \<le> 2" by simp
    show "(2::real) * 2 ^ nat (3 - 2) < 2 ^ 1024" by (rule small)
    show "\<forall>i. 1 \<le> i \<and> i < 3 \<longrightarrow>
       sleep_raises cfg_default (Finite (2 * 2 ^ nat (i - 1))) = None \<and>
       (\<exists>e. reported_error ManagedIdentityPOC cfg_default (world_429 i) item_txt = Some e \<and>
            is_rate_limited e)" by (rule all)
    show "reported_error ManagedIdentityPOC cfg_default (world_429 3) item_txt = Some ?e"
      by (rule rep)
    show "3 = MAX_RETRIES cfg_default \<or> \<not> is_rate_limited ?e" by (rule m3')
  qed
  note c4 = mp [OF T1 [THEN conjunct2, THEN conjunct2, THEN conjunct2] p4]
  have c4a: "process_contract_with_retry ManagedIdentityPOC cfg_default world_429 item_txt True fresh
     = (Inr (failure_record ManagedIdentityPOC (name item_txt) ?e),
        \<lparr>completed = 1, slept = [Finite 2, Finite 4]\<rparr>)"
    using c4 [THEN conjunct1] unfolding ev .
  have c4b: "sorted_wrt (<) (map (\<lambda>n. 2 * 2 ^ nat (n - 1)) [1..3 - 1] :: real list)"
    using c4 [THEN conjunct2, THEN conjunct2, THEN conjunct2] by simp
  show ?thesis
    by (intro conjI) (rule rep rl m1 default_delays(1) w1 c1 den nrl c2 early trl c3 c4a c4b)+
qed

text \<open>
  C6, as stated, fails: no rate-limit test is applied to an exception. A blob whose
  download failed makes \<^verbatim>\<open>Path(None)\<close> raise a \<^verbatim>\<open>TypeError\<close> at every attempt; its
  text has no rate-limit indicator, and yet the item is retried twice, after the delays
  2 and 4. The same text reported by the extraction call ends the item at once.
\<close>

theorem exception_retried_without_indicator:
  "blob_file_info ManagedIdentityPOC ''leping.docx'' [] False = item_lost \<and>
   \<not> is_rate_limited none_path_error \<and>
   raised_exception ManagedIdentityPOC cfg_default (world_429 1) item_lost True 1
     = Some none_path_error \<and>
   process_contract_with_retry ManagedIdentityPOC cfg_default world_429 item_lost True fresh
     = (Inr (failure_record ManagedIdentityPOC ''leping.docx'' none_path_error),
        \<lparr>completed = 1, slept = [Finite 2, Finite 4]\<rparr>) \<and>
   reported_error ManagedIdentityPOC cfg_default (world_denied 1) item_txt
     = Some none_path_error \<and>
   process_contract_with_retry ManagedIdentityPOC cfg_default world_denied item_txt True fresh
     = (Inr (failure_record ManagedIdentityPOC ''nordic/avtal.txt'' none_path_error),
        \<lparr>completed = 1, slept = []\<rparr>)"
  by (simp add: blob_file_info_def raised_exception_def reported_error_def run_simps input_simps)

text \<open>
  C6, amended. An exception raised inside the \<^verbatim>\<open>try\<close> block of an attempt \<open>a\<close> is caught,
  and no test is applied to its text, whatever the attempts before it did (\<open>rest\<close> are
  the attempts still to come, \<open>st\<close> is the state reached):
  \<^item> if \<open>a\<close> is below \<^verbatim>\<open>MAX_RETRIES\<close>, the delay \<^verbatim>\<open>RETRY_DELAY * 2 ** (a - 1)\<close> is slept
    and the loop goes on with the next attempt (provided the delay can be computed and
    \<^verbatim>\<open>time.sleep\<close> takes it);
  \<^item> otherwise the text of the exception becomes the terminal error of the item.

  So when every attempt raises, whatever the texts, \<^verbatim>\<open>MAX_RETRIES - 1\<close> delays are slept
  and the result is the failure record of the last exception.
\<close>

theorem exceptions_retried_until_last_attempt:
  "(raised_exception v cfg (world a) fi tracked a = Some exc \<and>
    a < MAX_RETRIES cfg \<and> accepted_delay cfg a = Some d \<longrightarrow>
      wait_time cfg a = Inr d \<and>
      (\<exists>st1. slept st1 = slept st \<and>
         retry_loop v cfg world fi tracked (a # rest) st =
           retry_loop v cfg world fi tracked rest (st1\<lparr>slept := slept st1 @ [d]\<rparr>))) \<and>
   (raised_exception v cfg (world a) fi tracked a = Some exc \<and> \<not> a < MAX_RETRIES cfg \<longrightarrow>
      (\<exists>st1. slept st1 = slept st \<and>
         retry_loop v cfg world fi tracked (a # rest) st =
           (Result (failure_record v (name fi) exc), increment tracked st1))) \<and>
   (1 \<le> MAX_RETRIES cfg \<and>
    (\<forall>i. 1 \<le> i \<and> i \<le> MAX_RETRIES cfg \<longrightarrow>
       raised_exception v cfg (world i) fi tracked i = Some (excs i)) \<and>
    (\<forall>i. 1 \<le> i \<and> i < MAX_RETRIES cfg \<longrightarrow> accepted_delay cfg i = Some (delay i)) \<longrightarrow>
      (\<exists>st'. process_contract_with_retry v cfg world fi tracked st =
                (Inr (failure_record v (name fi) (excs (MAX_RETRIES cfg))), st') \<and>
              slept st' = slept st @ map delay [1..MAX_RETRIES cfg - 1]) \<and>
      length [1..MAX_RETRIES cfg - 1] = nat (MAX_RETRIES cfg - 1))"
proof (intro conjI impI)
  assume h: "raised_exception v cfg (world a) fi tracked a = Some exc \<and>
    a < MAX_RETRIES cfg \<and> accepted_delay cfg a = Some d"
  then show "wait_time cfg a = Inr d"
    by (auto simp: accepted_delay_def split: sum.splits option.splits)
  show "\<exists>st1. slept st1 = slept st \<and>
         retry_loop v cfg world fi tracked (a # rest) st =
           retry_loop v cfg world fi tracked rest (st1\<lparr>slept := slept st1 @ [d]\<rparr>)"
    using h step_raised_retry [where world = world and a = a and st = st and rest = rest]
    by blast
next
  assume "raised_exception v cfg (world a) fi tracked a = Some exc \<and> \<not> a < MAX_RETRIES cfg"
  then show "\<exists>st1. slept st1 = slept st \<and>
         retry_loop v cfg world fi tracked (a # rest) st =
           (Result (failure_record v (name fi) exc), increment tracked st1)"
    using step_raised_terminal [where world = world and a = a and st = st and rest = rest]
    by blast
next
  assume h: "1 \<le> MAX_RETRIES cfg \<and>
    (\<forall>i. 1 \<le> i \<and> i \<le> MAX_RETRIES cfg \<longrightarrow>
       raised_exception v cfg (world i) fi tracked i = Some (excs i)) \<and>
    (\<forall>i. 1 \<le> i \<and> i < MAX_RETRIES cfg \<longrightarrow> accepted_delay cfg i = Some (delay i))"
  then obtain st' where
    "retry_loop v cfg world fi tracked [1..MAX_RETRIES cfg] st =
       (Result (failure_record v (name fi) (excs (MAX_RETRIES cfg))), st')"
    "slept st' = slept st @ map delay [1..MAX_RETRIES cfg - 1]"
    using loop_raising [where world = world and a = 1 and exc = excs and dl = delay and st = st]
    by blast
  then show "\<exists>st'. process_contract_with_retry v cfg world fi tracked st =
                (Inr (failure_record v (name fi) (excs (MAX_RETRIES cfg))), st') \<and>
              slept st' = slept st @ map delay [1..MAX_RETRIES cfg - 1]"
    by (auto simp: process_contract_with_retry_def)
  show "length [1..MAX_RETRIES cfg - 1] = nat (MAX_RETRIES cfg - 1)" by simp
qed

text \<open>
  C6, amended, at the default configuration, for the blob whose download failed: the
  first attempt raises and is retried after the delay 2, the third raises and ends the
  item; three attempts raise, the delays 2 and 4 are slept.
\<close>

theorem exceptions_retried_until_last_attempt_witness:
  "raised_exception ManagedIdentityPOC cfg_default (world_429 1) item_lost True 1
     = Some none_path_error \<and>
   1 < MAX_RETRIES cfg_default \<and>
   accepted_delay cfg_default 1 = Some (Finite 2) \<and>
   (\<exists>st1. slept st1 = slept fresh \<and>
      retry_loop ManagedIdentityPOC cfg_default world_429 item_lost True (1 # [2, 3]) fresh =
        retry_loop ManagedIdentityPOC cfg_default world_429 item_lost True [2, 3]
          (st1\<lparr>slept := slept st1 @ [Finite 2]\<rparr>)) \<and>
   raised_exception ManagedIdentityPOC cfg_default (world_429 3) item_lost True 3
     = Some none_path_error \<and>
   \<not> 3 < MAX_RETRIES cfg_default \<and>
   (\<exists>st1. slept st1 = slept fresh \<and>
      retry_loop ManagedIdentityPOC cfg_default world_429 item_lost True (3 # []) fresh =
        (Result (failure_record ManagedIdentityPOC (name item_lost) none_path_error),
         increment True st1)) \<and>
   fst (process_contract_with_retry ManagedIdentityPOC cfg_default world_429 item_lost True fresh)
     = Inr (failure_record ManagedIdentityPOC (name item_lost) none_path_error) \<and>
   slept (snd (process_contract_with_retry ManagedIdentityPOC cfg_default world_429 item_lost True fresh))
     = [Finite 2, Finite 4]"
proof -
  have r: "raised_exception ManagedIdentityPOC cfg_default (world_429 i) item_lost True i
     = Some none_path_error" for i
    by (simp add: raised_exception_def run_simps input_simps)
  have m1: "1 < MAX_RETRIES cfg_default" by (simp add: cfg_default_def)
  have m2: "\<not> 3 < MAX_RETRIES cfg_default" by (simp add: cfg_default_def)
  have m3: "1 \<le> MAX_RETRIES cfg_default" by (simp add: cfg_default_def)
  have m4: "MAX_RETRIES cfg_default = 3" by (simp add: cfg_default_def)
  let ?dl = "\<lambda>i::int. if i = 1 then Finite 2 else Finite 4"
  have h3: "\<forall>i. 1 \<le> i \<and> i \<le> MAX_RETRIES cfg_default \<longrightarrow>
     raised_exception ManagedIdentityPOC cfg_default (world_429 i) item_lost True i
       = Some none_path_error"
    using r by blast
  have h4: "\<forall>i. 1 \<le> i \<and> i < MAX_RETRIES cfg_default \<longrightarrow> accepted_delay cfg_default i = Some (?dl i)"
  proof (intro allI impI)
    fix i :: int assume "1 \<le> i \<and> i < MAX_RETRIES cfg_default"
    then have "i = 1 \<or> i = 2" using m4 by linarith
    then show "accepted_delay cfg_default i = Some (?dl i)" using default_delays by auto
  qed
  have ev: "slept fresh @ map ?dl [1..MAX_RETRIES cfg_default - 1] = [Finite 2, Finite 4]"
    by (simp add: fresh_def cfg_default_def upto_rec1)
  note T1 = exceptions_retried_until_last_attempt [where v = ManagedIdentityPOC
      and cfg = cfg_default and world = world_429 and a = 1 and fi = item_lost
      and tracked = True and exc = none_path_error and d = "Finite 2" and rest = "[2, 3]"
      and st = fresh and excs = "\<lambda>i. none_path_error" and delay = ?dl]
  note T2 = exceptions_retried_until_last_attempt [where v = ManagedIdentityPOC
      and cfg = cfg_default and world = world_429 and a = 3 and fi = item_lost
      and tracked = True and exc = none_path_error and rest = "[]" and st = fresh]
  have p1: "raised_exception ManagedIdentityPOC cfg_default (world_429 1) item_lost True 1
       = Some none_path_error \<and>
     1 < MAX_RETRIES cfg_default \<and> accepted_delay cfg_default 1 = Some (Finite 2)"
    by (intro conjI) (rule r m1 default_delays(1))+
  have c1: "\<exists>st1. slept st1 = slept fresh \<and>
      retry_loop ManagedIdentityPOC cfg_default world_429 item_lost True (1 # [2, 3]) fresh =
        retry_loop ManagedIdentityPOC cfg_default world_429 item_lost True [2, 3]
          (st1\<lparr>slept := slept st1 @ [Finite 2]\<rparr>)"
    using mp [OF T1 [THEN conjunct1] p1] by (elim conjE)
  have p2: "raised_exception ManagedIdentityPOC cfg_default (world_429 3) item_lost True 3
       = Some none_path_error \<and> \<not> 3 < MAX_RETRIES cfg_default"
    by (intro conjI) (rule r m2)+
  have c2: "\<exists>st1. slept st1 = slept fresh \<and>
      retry_loop ManagedIdentityPOC cfg_default world_429 item_lost True (3 # []) fresh =
        (Result (failure_record ManagedIdentityPOC (name item_lost) none_path_error),
         increment True st1)"
    using mp [OF T2 [THEN conjunct2, THEN conjunct1] p2] .
  have p3: "1 \<le> MAX_RETRIES cfg_default \<and>
    (\<forall>i. 1 \<le> i \<and> i \<le> MAX_RETRIES cfg_default \<longrightarrow>
       raised_exception ManagedIdentityPOC cfg_default (world_429 i) item_lost True i
         = Some none_path_error) \<and>
    (\<forall>i. 1 \<le> i \<and> i < MAX_RETRIES cfg_default \<longrightarrow> accepted_delay cfg_default i = Some (?dl i))"
    by (intro conjI) (rule m3 h3 h4)+
  obtain st' where c3:
    "process_contract_with_retry ManagedIdentityPOC cfg_default world_429 item_lost True fresh =
       (Inr (failure_record ManagedIdentityPOC (name item_lost) none_path_error), st')"
    "slept st' = slept fresh @ map ?dl [1..MAX_RETRIES cfg_default - 1]"
    using mp [OF T1 [THEN conjunct2, THEN conjunct2] p3] by blast
  have c3a: "fst (process_contract_with_retry ManagedIdentityPOC cfg_default world_429 item_lost True fresh)
     = Inr (failure_record ManagedIdentityPOC (name item_lost) none_path_error)"
    by (simp only: c3(1) fst_conv)
  have c3b: "slept (snd (process_contract_with_retry ManagedIdentityPOC cfg_default world_429 item_lost True fresh))
     = [Finite 2, Finite 4]"
    by (simp only: c3 snd_conv ev)
  show ?thesis
    by (intro conjI) (rule r m1 m2 default_delays(1) c1 c2 c3a c3b)+
qed

subsection \<open>Successful rows\<close>

lemma extract_direct_Inr:
  assumes "extract_metadata_direct v e fn = Inr md"
  shows "\<exists>d. extract_result e = Inr (PDict d) \<and>
           (\<forall>k. k \<notin> stamped_keys \<longrightarrow> md k = d k) \<and>
           md ''Original File Name'' =
             (case v of ManagedIdentityPOC \<Rightarrow> Some (JStr fn)
              | MetadataExtractionPOC \<Rightarrow> d ''Original File Name'')"
  using assms unfolding extract_metadata_direct_def Let_def stamped_keys_def
  by (auto split: sum.splits parsed.splits pipeline.splits if_splits)

lemma extract_english_Inr:
  assumes "extract_metadata_from_english v e fn = Inr md"
  shows "\<exists>d. extract_result e = Inr (PDict d) \<and>
           (\<forall>k. k \<notin> stamped_keys \<longrightarrow> md k = d k) \<and>
           md ''Original File Name'' =
             (case v of ManagedIdentityPOC \<Rightarrow> Some (JStr fn)
              | MetadataExtractionPOC \<Rightarrow> d ''Original File Name'')"
  using assms unfolding extract_metadata_from_english_def Let_def stamped_keys_def
  by (auto split: sum.splits parsed.splits pipeline.splits if_splits)

lemma process_success:
  assumes "process_contract_with_retry v cfg world fi tracked st = (Inr r, st')"
    and "\<not> is_error r"
  shows "\<exists>a d md. 1 \<le> a \<and> a \<le> MAX_RETRIES cfg \<and> extract_result (world a) = Inr (PDict d) \<and>
           r = build_row v (name fi) md \<and>
           (\<forall>k. k \<notin> stamped_keys \<longrightarrow> md k = d k) \<and>
           md ''Original File Name'' =
             (case v of ManagedIdentityPOC \<Rightarrow> Some (JStr (name fi))
              | MetadataExtractionPOC \<Rightarrow> d ''Original File Name'')"
proof -
  have ne: "r \<noteq> failure_record v (name fi) err" for err
    using assms(2) failure_record_error [of v "name fi" err] by (auto simp: is_error_def)
  obtain x s1 where b: "retry_loop v cfg world fi tracked [1..MAX_RETRIES cfg] st = (x, s1)"
    by fastforce
  have "x = Result r"
    using assms(1) b ne by (auto simp: process_contract_with_retry_def split: loop_exit.splits)
  then obtain a md where a: "a \<in> set [1..MAX_RETRIES cfg]"
    and md: "extract_metadata_direct v (world a) (name fi) = Inr md \<or>
             extract_metadata_from_english v (world a) (name fi) = Inr md"
    and r: "r = build_row v (name fi) md"
    using retry_loop_Result [of v cfg world fi tracked "[1..MAX_RETRIES cfg]" st r s1] b ne by blast
  from md obtain d where "extract_result (world a) = Inr (PDict d)"
     "\<forall>k. k \<notin> stamped_keys \<longrightarrow> md k = d k"
     "md ''Original File Name'' =
             (case v of ManagedIdentityPOC \<Rightarrow> Some (JStr (name fi))
              | MetadataExtractionPOC \<Rightarrow> d ''Original File Name'')"
    using extract_direct_Inr extract_english_Inr by blast
  then show ?thesis using a r by (intro exI [of _ a] exI [of _ d] exI [of _ md]) simp
qed

lemma process_failure:
  assumes "process_contract_with_retry v cfg world fi tracked st = (Inr r, st')"
    and "is_error r"
  shows "\<exists>err. r = failure_record v (name fi) err"
proof -
  have ne: "r \<noteq> build_row v (name fi) md" for md
    using assms(2) build_row_no_error [of v "name fi" md] by (auto simp: is_error_def)
  obtain x s1 where b: "retry_loop v cfg world fi tracked [1..MAX_RETRIES cfg] st = (x, s1)"
    by fastforce
  show ?thesis
  proof (cases x)
    case (Result r')
    then have "r' = r" using assms(1) b by (simp add: process_contract_with_retry_def)
    then show ?thesis
      using retry_loop_Result [of v cfg world fi tracked "[1..MAX_RETRIES cfg]" st r s1] b Result ne
      by blast
  next
    case Exhausted
    then show ?thesis using assms(1) b by (auto simp: process_contract_with_retry_def)
  next
    case (Escaped exc)
    then show ?thesis using assms(1) b by (simp add: process_contract_with_retry_def)
  qed
qed

lemma field_not_stamp:
  assumes "f \<in> set (SIRION_FIELDS v)"
  shows "f \<noteq> ''file_name''" "f \<noteq> ''extraction_timestamp''" "f \<noteq> ''extraction_method''"
  using assms by (cases v; simp add: SIRION_FIELDS_def; blast)+

lemma run_good_pdf:
  "process_contract_with_retry ManagedIdentityPOC cfg_default world_good item_pdf True fresh
     = (Inr row_pdf, \<lparr>completed = 1, slept = []\<rparr>)"
  by (simp add: run_simps input_simps)

lemma row_pdf_success: "\<not> is_error row_pdf"
  by (simp add: is_error_def row_pdf_def build_row_no_error)

text \<open>
  C7: a successful row has every field of \<^verbatim>\<open>SIRION_FIELDS\<close> as a key. The value is the one
  the model gave, and the empty string when the model left the field out (for
  \<^verbatim>\<open>Original File Name\<close> in the managed-identity script it is the name of the file).
\<close>

theorem success_row_has_every_field:
  assumes "process_contract_with_retry v cfg world fi tracked st = (Inr r, st')"
    and "\<not> is_error r"
  shows "\<exists>a d. 1 \<le> a \<and> a \<le> MAX_RETRIES cfg \<and> extract_result (world a) = Inr (PDict d) \<and>
           (\<forall>f\<in>set (SIRION_FIELDS v).
              \<exists>val. r f = Some val \<and>
                (f \<noteq> ''Original File Name'' \<and> d f = None \<longrightarrow> val = JStr []) \<and>
                (f \<noteq> ''Original File Name'' \<and> d f \<noteq> None \<longrightarrow> d f = Some val))"
proof -
  obtain a d md where a: "1 \<le> a" "a \<le> MAX_RETRIES cfg" "extract_result (world a) = Inr (PDict d)"
    and r: "r = build_row v (name fi) md"
    and same: "\<forall>k. k \<notin> stamped_keys \<longrightarrow> md k = d k"
    using process_success [OF assms] by blast
  have "\<exists>val. r f = Some val \<and>
                (f \<noteq> ''Original File Name'' \<and> d f = None \<longrightarrow> val = JStr []) \<and>
                (f \<noteq> ''Original File Name'' \<and> d f \<noteq> None \<longrightarrow> d f = Some val)"
    if f: "f \<in> set (SIRION_FIELDS v)" for f
  proof -
    have rf: "r f = Some (dict_get md f (JStr []))" using r build_row_field [OF f] by simp
    have "f \<noteq> ''Original File Name'' \<Longrightarrow> md f = d f"
      using same field_not_stamp [OF f] by (simp add: stamped_keys_def)
    then show ?thesis using rf by (auto simp: dict_get_def)
  qed
  then show ?thesis using a by blast
qed

text \<open>C7 on the run of \<open>item_pdf\<close> with collaborators that answer every call.\<close>

theorem success_row_has_every_field_witness:
  "process_contract_with_retry ManagedIdentityPOC cfg_default world_good item_pdf True fresh
     = (Inr row_pdf, \<lparr>completed = 1, slept = []\<rparr>) \<and>
   \<not> is_error row_pdf \<and>
   (\<exists>a d. 1 \<le> a \<and> a \<le> MAX_RETRIES cfg_default \<and> extract_result (world_good a) = Inr (PDict d) \<and>
      (\<forall>f\<in>set (SIRION_FIELDS ManagedIdentityPOC).
          \<exists>val. row_pdf f = Some val \<and>
            (f \<noteq> ''Original File Name'' \<and> d f = None \<longrightarrow> val = JStr []) \<and>
            (f \<noteq> ''Original File Name'' \<and> d f \<noteq> None \<longrightarrow> d f = Some val)))"
  using success_row_has_every_field [OF run_good_pdf row_pdf_success] run_good_pdf row_pdf_success
  by blast

text \<open>
  C4: in the managed-identity script (schema A) the \<^verbatim>\<open>Original File Name\<close> of a successful
  result is the file name the caller gave, whatever the model answered: in the result of
  the direct strategy, in the result of the two-call strategy, and in the row built from
  either.
\<close>

theorem original_file_name_is_input:
  "(extract_metadata_direct ManagedIdentityPOC e fn = Inr md1 \<longrightarrow>
      md1 ''Original File Name'' = Some (JStr fn)) \<and>
   (extract_metadata_from_english ManagedIdentityPOC e fn = Inr md2 \<longrightarrow>
      md2 ''Original File Name'' = Some (JStr fn)) \<and>
   (process_contract_with_retry ManagedIdentityPOC cfg world fi tracked st = (Inr r, st') \<and>
    \<not> is_error r \<longrightarrow> r ''Original File Name'' = Some (JStr (name fi)))"
proof (intro conjI impI)
  assume "extract_metadata_direct ManagedIdentityPOC e fn = Inr md1"
  from extract_direct_Inr [OF this] show "md1 ''Original File Name'' = Some (JStr fn)" by auto
next
  assume "extract_metadata_from_english ManagedIdentityPOC e fn = Inr md2"
  from extract_english_Inr [OF this] show "md2 ''Original File Name'' = Some (JStr fn)" by auto
next
  assume "process_contract_with_retry ManagedIdentityPOC cfg world fi tracked st = (Inr r, st') \<and>
    \<not> is_error r"
  then obtain md where r: "r = build_row ManagedIdentityPOC (name fi) md"
    and md: "md ''Original File Name'' = Some (JStr (name fi))"
    using process_success [of ManagedIdentityPOC cfg world fi tracked st r st'] by auto
  have "''Original File Name'' \<in> set (SIRION_FIELDS ManagedIdentityPOC)"
    by (simp add: SIRION_FIELDS_def)
  from build_row_field [OF this] show "r ''Original File Name'' = Some (JStr (name fi))"
    using r md by (simp add: dict_get_def)
qed

text \<open>
  C4 where the model answered \<^verbatim>\<open>supply_agreement.pdf\<close> for the file \<^verbatim>\<open>umowa.pdf\<close>.
\<close>

theorem original_file_name_is_input_witness:
  "model_answer ''Original File Name'' = Some (JStr ''supply_agreement.pdf'') \<and>
   extract_metadata_direct ManagedIdentityPOC env_good ''umowa.pdf'' = Inr direct_answer \<and>
   direct_answer ''Original File Name'' = Some (JStr ''umowa.pdf'') \<and>
   extract_metadata_from_english ManagedIdentityPOC env_good ''umowa.pdf'' = Inr stamped_answer \<and>
   stamped_answer ''Original File Name'' = Some (JStr ''umowa.pdf'') \<and>
   process_contract_with_retry ManagedIdentityPOC cfg_default world_good item_pdf True fresh
     = (Inr row_pdf, \<lparr>completed = 1, slept = []\<rparr>) \<and>
   \<not> is_error row_pdf \<and>
   row_pdf ''Original File Name'' = Some (JStr ''umowa.pdf'')"
proof -
  have m: "model_answer ''Original File Name'' = Some (JStr ''supply_agreement.pdf'')"
    by (simp add: model_answer_def)
  have d: "extract_metadata_direct ManagedIdentityPOC env_good ''umowa.pdf'' = Inr direct_answer"
    by (simp add: extract_metadata_direct_def env_good_def direct_answer_def)
  have e: "extract_metadata_from_english ManagedIdentityPOC env_good ''umowa.pdf'' = Inr stamped_answer"
    by (simp add: extract_metadata_from_english_def env_good_def stamped_answer_def)
  have n: "name item_pdf = ''umowa.pdf''" by (simp add: item_pdf_def)
  show ?thesis
    using original_file_name_is_input [of env_good "''umowa.pdf''" direct_answer stamped_answer
        cfg_default world_good item_pdf True fresh row_pdf "\<lparr>completed = 1, slept = []\<rparr>"]
      m d e n run_good_pdf row_pdf_success
    by simp
qed

text \<open>
  C10: when the answer of the model has no \<^verbatim>\<open>confidence\<close> key, the \<^verbatim>\<open>Confidence\<close> column
  of the successful row is \<^verbatim>\<open>medium\<close>; when it has no \<^verbatim>\<open>source_language\<close> key, the
  \<^verbatim>\<open>Source Language\<close> column is \<^verbatim>\<open>unknown\<close>. A key that is present gives its value.
\<close>

theorem defaults_for_omitted_quality_keys:
  assumes "process_contract_with_retry v cfg world fi tracked st = (Inr r, st')"
    and "\<not> is_error r"
  shows "\<exists>a d. 1 \<le> a \<and> a \<le> MAX_RETRIES cfg \<and> extract_result (world a) = Inr (PDict d) \<and>
           r ''Confidence'' = Some (case d ''confidence'' of None \<Rightarrow> JStr ''medium'' | Some c \<Rightarrow> c) \<and>
           r ''Source Language'' =
             Some (case d ''source_language'' of None \<Rightarrow> JStr ''unknown'' | Some l \<Rightarrow> l)"
proof -
  obtain a d md where a: "1 \<le> a" "a \<le> MAX_RETRIES cfg" "extract_result (world a) = Inr (PDict d)"
    and r: "r = build_row v (name fi) md"
    and same: "\<forall>k. k \<notin> stamped_keys \<longrightarrow> md k = d k"
    using process_success [OF assms] by blast
  have "md ''confidence'' = d ''confidence''" "md ''source_language'' = d ''source_language''"
    using same by (simp_all add: stamped_keys_def)
  then have "r ''Confidence'' = Some (case d ''confidence'' of None \<Rightarrow> JStr ''medium'' | Some c \<Rightarrow> c)"
    "r ''Source Language'' = Some (case d ''source_language'' of None \<Rightarrow> JStr ''unknown'' | Some l \<Rightarrow> l)"
    using r by (simp_all add: build_row_confidence build_row_source_language dict_get_def)
  then show ?thesis using a by blast
qed

text \<open>C10 on an answer that has neither key.\<close>

theorem defaults_for_omitted_quality_keys_witness:
  "model_answer ''confidence'' = None \<and> model_answer ''source_language'' = None \<and>
   process_contract_with_retry ManagedIdentityPOC cfg_default world_good item_pdf True fresh
     = (Inr row_pdf, \<lparr>completed = 1, slept = []\<rparr>) \<and>
   \<not> is_error row_pdf \<and>
   row_pdf ''Confidence'' = Some (JStr ''medium'') \<and>
   row_pdf ''Source Language'' = Some (JStr ''unknown'')"
proof -
  have m: "model_answer ''confidence'' = None" "model_answer ''source_language'' = None"
    by (simp_all add: model_answer_def)
  have w: "extract_result (world_good a) = Inr (PDict d) \<Longrightarrow> d = model_answer" for a d
    by (simp add: world_good_def env_good_def)
  obtain a d where ad: "extract_result (world_good a) = Inr (PDict d)"
    and c: "row_pdf ''Confidence'' = Some (case d ''confidence'' of None \<Rightarrow> JStr ''medium'' | Some c \<Rightarrow> c)"
    and l: "row_pdf ''Source Language'' =
              Some (case d ''source_language'' of None \<Rightarrow> JStr ''unknown'' | Some l \<Rightarrow> l)"
    using defaults_for_omitted_quality_keys [OF run_good_pdf row_pdf_success] by blast
  have "d = model_answer" using w [OF ad] .
  then have "row_pdf ''Confidence'' = Some (JStr ''medium'')"
    "row_pdf ''Source Language'' = Some (JStr ''unknown'')"
    using c l m by simp_all
  then show ?thesis using m run_good_pdf row_pdf_success by simp
qed

text \<open>
  C8, as stated, fails: the coupling of term type and expiration date is asked of the
  model in the prompt and checked nowhere. When the model answers \<^verbatim>\<open>Perpetual\<close> together
  with an expiration date, the successful row carries both.
\<close>

theorem perpetual_row_with_expiration_date:
  "process_contract_with_retry ManagedIdentityPOC cfg_default world_good item_pdf True fresh
     = (Inr row_pdf, \<lparr>completed = 1, slept = []\<rparr>) \<and>
   \<not> is_error row_pdf \<and>
   row_pdf ''Term Type'' = Some (JStr ''Perpetual'') \<and>
   row_pdf ''Expiration Date'' = Some (JStr ''01/01/2030'')"
proof -
  have "''Term Type'' \<in> set (SIRION_FIELDS ManagedIdentityPOC)"
    "''Expiration Date'' \<in> set (SIRION_FIELDS ManagedIdentityPOC)"
    by (simp_all add: SIRION_FIELDS_def)
  then have "row_pdf ''Term Type'' = Some (JStr ''Perpetual'')"
    "row_pdf ''Expiration Date'' = Some (JStr ''01/01/2030'')"
    by (simp_all add: row_pdf_def build_row_field dict_get_def stamped_answer_def model_answer_def)
  then show ?thesis using run_good_pdf row_pdf_success by simp
qed

text \<open>
  C8, amended: in a successful schema-A row, \<^verbatim>\<open>Term Type\<close> and \<^verbatim>\<open>Expiration Date\<close> are the
  values the model gave for these two keys, each copied on its own (the empty string for
  a key the model left out). So the row of a \<^verbatim>\<open>Perpetual\<close> contract has a null expiration
  date exactly when the model answered null.
\<close>

theorem term_type_and_expiration_date_copied:
  assumes "process_contract_with_retry ManagedIdentityPOC cfg world fi tracked st = (Inr r, st')"
    and "\<not> is_error r"
  shows "\<exists>a d. 1 \<le> a \<and> a \<le> MAX_RETRIES cfg \<and> extract_result (world a) = Inr (PDict d) \<and>
           r ''Term Type'' = Some (case d ''Term Type'' of None \<Rightarrow> JStr [] | Some t \<Rightarrow> t) \<and>
           r ''Expiration Date'' = Some (case d ''Expiration Date'' of None \<Rightarrow> JStr [] | Some x \<Rightarrow> x)"
proof -
  obtain a d md where a: "1 \<le> a" "a \<le> MAX_RETRIES cfg" "extract_result (world a) = Inr (PDict d)"
    and r: "r = build_row ManagedIdentityPOC (name fi) md"
    and same: "\<forall>k. k \<notin> stamped_keys \<longrightarrow> md k = d k"
    using process_success [OF assms] by blast
  have f: "''Term Type'' \<in> set (SIRION_FIELDS ManagedIdentityPOC)"
    "''Expiration Date'' \<in> set (SIRION_FIELDS ManagedIdentityPOC)"
    by (simp_all add: SIRION_FIELDS_def)
  have "md ''Term Type'' = d ''Term Type''" "md ''Expiration Date'' = d ''Expiration Date''"
    using same by (simp_all add: stamped_keys_def)
  then have "r ''Term Type'' = Some (case d ''Term Type'' of None \<Rightarrow> JStr [] | Some t \<Rightarrow> t)"
    "r ''Expiration Date'' = Some (case d ''Expiration Date'' of None \<Rightarrow> JStr [] | Some x \<Rightarrow> x)"
    using r build_row_field [OF f(1)] build_row_field [OF f(2)] by (simp_all add: dict_get_def)
  then show ?thesis using a by blast
qed

text \<open>C8, amended, on the run of \<open>item_pdf\<close>.\<close>

theorem term_type_and_expiration_date_copied_witness:
  "process_contract_with_retry ManagedIdentityPOC cfg_default world_good item_pdf True fresh
     = (Inr row_pdf, \<lparr>completed = 1, slept = []\<rparr>) \<and>
   \<not> is_error row_pdf \<and>
   (\<exists>a d. 1 \<le> a \<and> a \<le> MAX_RETRIES cfg_default \<and> extract_result (world_good a) = Inr (PDict d) \<and>
      row_pdf ''Term Type'' = Some (case d ''Term Type'' of None \<Rightarrow> JStr [] | Some t \<Rightarrow> t) \<and>
      row_pdf ''Expiration Date'' =
        Some (case d ''Expiration Date'' of None \<Rightarrow> JStr [] | Some x \<Rightarrow> x))"
  using term_type_and_expiration_date_copied [OF run_good_pdf row_pdf_success]
    run_good_pdf row_pdf_success
  by blast

subsection \<open>The batch run\<close>

lemma as_completed_mset: "mset (as_completed order fs) = mset fs"
proof (cases "sort order = [0..<length fs]")
  case True
  have "mset order = mset (sort order)" by simp
  then have "mset order = mset [0..<length fs]" using True by simp
  then have "image_mset (\<lambda>i. fs ! i) (mset order) = image_mset (\<lambda>i. fs ! i) (mset [0..<length fs])"
    by simp
  then have "mset (map (\<lambda>i. fs ! i) order) = mset (map (\<lambda>i. fs ! i) [0..<length fs])"
    by simp
  then show ?thesis using True by (simp add: as_completed_def map_nth)
next
  case False
  then show ?thesis by (simp add: as_completed_def)
qed

lemma collect_Inr: "collect fs = Inr rs \<Longrightarrow> map Inr rs = fs"
proof (induction fs arbitrary: rs)
  case Nil
  then show ?case by simp
next
  case (Cons f fs)
  then show ?case by (cases f) (auto split: sum.splits)
qed

lemma collect_returns: "\<forall>f\<in>set fs. \<exists>r. f = Inr r \<Longrightarrow> \<exists>rs. collect fs = Inr rs"
proof (induction fs)
  case Nil
  then show ?case by simp
next
  case (Cons f fs)
  then obtain r rs where "f = Inr r" "collect fs = Inr rs" by auto
  then show ?case by simp
qed

lemma process_not_raising:
  assumes "delays_accepted cfg"
  shows "\<exists>r st'. process_contract_with_retry v cfg world fi tracked st = (Inr r, st')"
proof -
  obtain x s1 where b: "retry_loop v cfg world fi tracked [1..MAX_RETRIES cfg] st = (x, s1)"
    by fastforce
  have acc: "\<forall>a\<in>set [1..MAX_RETRIES cfg]. a < MAX_RETRIES cfg \<longrightarrow> accepted_delay cfg a \<noteq> None"
    using delays_acceptedD [OF assms] by fastforce
  have "x \<noteq> Escaped exc" for exc
    using retry_loop_not_Escaped [OF acc, of v world fi tracked st exc] b by simp
  then show ?thesis using b by (cases x) (auto simp: process_contract_with_retry_def)
qed

lemma worker_returns: "delays_accepted cfg \<Longrightarrow> \<exists>r. worker v cfg item = Inr r"
  using process_not_raising [of cfg v "snd item" "fst item" True fresh]
  by (auto simp: worker_def)

lemma process_is_worker:
  "fst (process_contract_with_retry v cfg world fi True st) = worker v cfg (fi, world)"
  using process_result_indep [of v cfg world fi True st fresh] by (simp add: worker_def)

lemma run_sequential_Inr:
  "run_sequential v cfg items st = (Inr rs, st') \<Longrightarrow> map Inr rs = map (worker v cfg) items"
proof (induction items arbitrary: st rs st')
  case Nil
  then show ?case by simp
next
  case (Cons item items)
  obtain fi world where item: "item = (fi, world)" by (cases item)
  obtain x s1 where p: "process_contract_with_retry v cfg world fi True st = (x, s1)" by fastforce
  then obtain r where x: "x = Inr r" using Cons.prems item by (cases x) auto
  obtain y s2 where q: "run_sequential v cfg items s1 = (y, s2)" by fastforce
  then obtain rs' where y: "y = Inr rs'" using Cons.prems item p x by (cases y) auto
  have rs: "rs = r # rs'" using Cons.prems item p x q y by simp
  have "worker v cfg (fi, world) = Inr r" using process_is_worker [of v cfg world fi st] p x by simp
  then show ?case using Cons.IH [of s1 rs' s2] q y rs item by simp
qed

lemma run_sequential_returns:
  assumes "delays_accepted cfg"
  shows "\<exists>rs st'. run_sequential v cfg items st = (Inr rs, st')"
proof (induction items arbitrary: st)
  case Nil
  then show ?case by simp
next
  case (Cons item items)
  obtain fi world where item: "item = (fi, world)" by (cases item)
  obtain r s1 where p: "process_contract_with_retry v cfg world fi True st = (Inr r, s1)"
    using process_not_raising [OF assms] by blast
  obtain rs s2 where "run_sequential v cfg items s1 = (Inr rs, s2)" using Cons.IH by blast
  then show ?case using item p by simp
qed

lemma run_items_Inr:
  assumes "run_items v cfg parallel_mode order items = Inr rs"
  shows "mset (map Inr rs) = mset (map (worker v cfg) items)"
proof (cases "parallel_mode \<and> 1 < length items")
  case True
  then have "collect (as_completed order (map (worker v cfg) items)) = Inr rs"
    using assms by (simp add: run_items_def run_parallel_def split: if_splits)
  then have "map Inr rs = as_completed order (map (worker v cfg) items)" by (rule collect_Inr)
  then show ?thesis by (simp add: as_completed_mset)
next
  case False
  then have "run_items v cfg parallel_mode order items = fst (run_sequential v cfg items fresh)"
    unfolding run_items_def by (rule if_not_P)
  then have "fst (run_sequential v cfg items fresh) = Inr rs" using assms by simp
  then obtain st' where "run_sequential v cfg items fresh = (Inr rs, st')"
    by (cases "run_sequential v cfg items fresh") auto
  then show ?thesis using run_sequential_Inr by metis
qed

lemma run_items_length:
  assumes "run_items v cfg parallel_mode order items = Inr rs"
  shows "length rs = length items"
  using run_items_Inr [OF assms] by (metis length_map size_mset)

lemma run_items_returns:
  assumes "delays_accepted cfg"
    and "parallel_mode \<and> 1 < length items \<longrightarrow> 0 < MAX_WORKERS cfg"
  shows "\<exists>rs. run_items v cfg parallel_mode order items = Inr rs"
proof (cases "parallel_mode \<and> 1 < length items")
  case True
  have "set (as_completed order (map (worker v cfg) items)) = set (map (worker v cfg) items)"
    using as_completed_mset [of order "map (worker v cfg) items"] by (metis set_mset_mset)
  then have "\<forall>f\<in>set (as_completed order (map (worker v cfg) items)). \<exists>r. f = Inr r"
    using worker_returns [OF assms(1)] by auto
  then have "\<exists>rs. collect (as_completed order (map (worker v cfg) items)) = Inr rs"
    by (rule collect_returns)
  moreover have "\<not> MAX_WORKERS cfg \<le> 0" using True assms(2) by simp
  ultimately show ?thesis using True by (simp add: run_items_def run_parallel_def)
next
  case False
  then have "run_items v cfg parallel_mode order items = fst (run_sequential v cfg items fresh)"
    unfolding run_items_def by (rule if_not_P)
  then show ?thesis using run_sequential_returns [OF assms(1), of v items fresh] by auto
qed

lemma run_items_member:
  assumes "run_items v cfg parallel_mode order items = Inr rs" and "r \<in> set rs"
  shows "\<exists>item\<in>set items. worker v cfg item = Inr r"
proof -
  have "set (map Inr rs) = set (map (worker v cfg) items)"
    using run_items_Inr [OF assms(1)] by (metis set_mset_mset)
  moreover have "Inr r \<in> set (map Inr rs)" using assms(2) by simp
  ultimately have "Inr r \<in> set (map (worker v cfg) items)" by blast
  then show ?thesis by auto
qed

lemma worker_failure:
  assumes "worker v cfg item = Inr r" and "is_error r"
  shows "\<exists>err. r = failure_record v (name (fst item)) err"
proof -
  obtain x s1 where p: "process_contract_with_retry v cfg (snd item) (fst item) True fresh = (x, s1)"
    by fastforce
  then have "x = Inr r" using assms(1) by (simp add: worker_def)
  then show ?thesis using process_failure [of v cfg "snd item" "fst item" True fresh r s1] p assms(2)
    by simp
qed

lemma process_contracts_exit:
  assumes "file_infos \<noteq> []"
    and "run_items v cfg parallel_mode order file_infos = Inr results"
  shows "process_contracts v src cfg sk output_csv parallel_mode order file_infos =
           (case export_outputs v sk output_csv src results of
              (Some exc, written) \<Rightarrow> BatchRaised exc written
            | (None, written) \<Rightarrow>
                (case summary_error results of
                   Some exc \<Rightarrow> BatchRaised exc written
                 | None \<Rightarrow> Completed results written))"
  using assms by (simp add: process_contracts_def)

text \<open>
  C2, as stated, fails: with a negative \<^verbatim>\<open>RETRY_DELAY\<close> the \<^verbatim>\<open>ValueError\<close> of
  \<^verbatim>\<open>time.sleep\<close> leaves the worker of a rate-limited item; the run of one submitted item
  ends with that exception and collects no result. With \<^verbatim>\<open>MAX_WORKERS = 0\<close> the parallel
  run of two items ends before any item is submitted.
\<close>

theorem batch_aborts_on_negative_delay:
  "length rate_limited_batch = 1 \<and>
   run_items MetadataExtractionPOC cfg_negative_delay False [] rate_limited_batch
     = Inl ''sleep length must be non-negative'' \<and>
   process_contracts MetadataExtractionPOC LocalFolder cfg_negative_delay sink_ok default_csv
       False [] rate_limited_batch
     = BatchRaised ''sleep length must be non-negative'' [] \<and>
   length mixed_batch = 2 \<and>
   run_items ManagedIdentityPOC cfg_no_workers True [1, 0] mixed_batch
     = Inl ''max_workers must be greater than 0'' \<and>
   process_contracts ManagedIdentityPOC BlobContainer cfg_no_workers sink_ok default_csv
       True [1, 0] mixed_batch
     = BatchRaised ''max_workers must be greater than 0'' []"
proof -
  have a: "run_items MetadataExtractionPOC cfg_negative_delay False [] rate_limited_batch
     = Inl ''sleep length must be non-negative''"
    by (simp add: run_items_def rate_limited_batch_def run_simps input_simps)
  have b: "run_items ManagedIdentityPOC cfg_no_workers True [1, 0] mixed_batch
     = Inl ''max_workers must be greater than 0''"
    by (simp add: run_items_def run_parallel_def mixed_batch_def cfg_no_workers_def cfg_default_def)
  have l: "length rate_limited_batch = 1" "length mixed_batch = 2"
    "rate_limited_batch \<noteq> []" "mixed_batch \<noteq> []"
    by (simp_all add: rate_limited_batch_def mixed_batch_def)
  show ?thesis using a b l by (simp add: process_contracts_def)
qed

text \<open>
  C2, amended: when every delay \<^verbatim>\<open>RETRY_DELAY * 2 ** (n - 1)\<close> of an attempt \<open>n\<close> below
  \<^verbatim>\<open>MAX_RETRIES\<close> can be computed and slept, and \<^verbatim>\<open>MAX_WORKERS\<close> is at least 1 where the
  run is parallel (parallel mode asked for and more than one item), the run collects
  exactly one result per work item, in sequential and in parallel mode and whatever
  happens to the items: as many results as items, and as a multiset the results are the
  results of the workers of the items, so none is lost and none is doubled. The batch
  function hands these results to the export and to the summary (or stops before with an
  empty list of items).
\<close>

theorem one_result_per_work_item:
  assumes "delays_accepted cfg"
    and "parallel_mode \<and> 1 < length file_infos \<longrightarrow> 0 < MAX_WORKERS cfg"
  shows "\<exists>results. run_items v cfg parallel_mode order file_infos = Inr results \<and>
           length results = length file_infos \<and>
           mset (map Inr results) = mset (map (worker v cfg) file_infos) \<and>
           process_contracts v src cfg sk output_csv parallel_mode order file_infos =
             (if file_infos = [] then NoContractFiles
              else case export_outputs v sk output_csv src results of
                     (Some exc, written) \<Rightarrow> BatchRaised exc written
                   | (None, written) \<Rightarrow>
                       (case summary_error results of
                          Some exc \<Rightarrow> BatchRaised exc written
                        | None \<Rightarrow> Completed results written))"
proof -
  obtain results where r: "run_items v cfg parallel_mode order file_infos = Inr results"
    using run_items_returns [OF assms] by blast
  have m: "mset (map Inr results) = mset (map (worker v cfg) file_infos)"
    using run_items_Inr [OF r] .
  have l: "length results = length file_infos" using run_items_length [OF r] .
  have p: "process_contracts v src cfg sk output_csv parallel_mode order file_infos =
             (if file_infos = [] then NoContractFiles
              else case export_outputs v sk output_csv src results of
                     (Some exc, written) \<Rightarrow> BatchRaised exc written
                   | (None, written) \<Rightarrow>
                       (case summary_error results of
                          Some exc \<Rightarrow> BatchRaised exc written
                        | None \<Rightarrow> Completed results written))"
    using r by (simp add: process_contracts_def)
  show ?thesis using r m l p by blast
qed

lemma run_txt_429:
  "worker ManagedIdentityPOC cfg_default (item_txt, world_429) =
     Inr (failure_record ManagedIdentityPOC ''nordic/avtal.txt'' ''Error code: 429 (Rate limit detected)'')"
  by (simp add: worker_def run_simps input_simps)

lemma run_pdf_good: "worker ManagedIdentityPOC cfg_default (item_pdf, world_good) = Inr row_pdf"
  by (simp add: worker_def run_good_pdf)

lemma mixed_parallel:
  "run_items ManagedIdentityPOC cfg_default True [1, 0] mixed_batch = Inr (rev mixed_results)"
proof -
  have "\<not> MAX_WORKERS cfg_default \<le> 0" by (simp add: cfg_default_def)
  then show ?thesis
    by (simp add: run_items_def run_parallel_def as_completed_def mixed_batch_def mixed_results_def
      run_txt_429 run_pdf_good upt_rec)
qed

lemma mixed_sequential:
  "run_items ManagedIdentityPOC cfg_default False [] mixed_batch = Inr mixed_results"
proof -
  have w: "map (worker ManagedIdentityPOC cfg_default) mixed_batch = map Inr mixed_results"
    by (simp add: mixed_batch_def mixed_results_def run_txt_429 run_pdf_good)
  obtain rs st' where
    rs: "run_sequential ManagedIdentityPOC cfg_default mixed_batch fresh = (Inr rs, st')"
    using run_sequential_returns [OF default_delays_accepted] by blast
  have "map Inr rs = (map Inr mixed_results :: (string + pydict) list)"
    using run_sequential_Inr [OF rs] w by simp
  then have "rs = mixed_results" by (simp add: inj_map_eq_map)
  then show ?thesis using rs by (simp add: run_items_def)
qed

text \<open>
  C2, amended, on a batch of two items in parallel mode with ten workers, the second item
  completing first: one item fails after its retries, the other succeeds.
\<close>

theorem one_result_per_work_item_witness:
  "delays_accepted cfg_default \<and> 0 < MAX_WORKERS cfg_default \<and> length mixed_batch = 2 \<and>
   run_items ManagedIdentityPOC cfg_default True [1, 0] mixed_batch = Inr (rev mixed_results) \<and>
   (\<exists>results. run_items ManagedIdentityPOC cfg_default True [1, 0] mixed_batch = Inr results \<and>
      length results = length mixed_batch \<and>
      mset (map Inr results) = mset (map (worker ManagedIdentityPOC cfg_default) mixed_batch) \<and>
      process_contracts ManagedIdentityPOC BlobContainer cfg_default sink_ok default_csv
          True [1, 0] mixed_batch =
        (if mixed_batch = [] then NoContractFiles
         else case export_outputs ManagedIdentityPOC sink_ok default_csv BlobContainer results of
                (Some exc, written) \<Rightarrow> BatchRaised exc written
              | (None, written) \<Rightarrow>
                  (case summary_error results of
                     Some exc \<Rightarrow> BatchRaised exc written
                   | None \<Rightarrow> Completed results written)))"
proof -
  have w: "0 < MAX_WORKERS cfg_default" by (simp add: cfg_default_def)
  then have h: "True \<and> 1 < length mixed_batch \<longrightarrow> 0 < MAX_WORKERS cfg_default" by simp
  have l: "length mixed_batch = 2" by (simp add: mixed_batch_def)
  note T = one_result_per_work_item [OF default_delays_accepted h,
      of ManagedIdentityPOC "[1, 0]" BlobContainer sink_ok default_csv]
  show ?thesis
    by (intro conjI) (rule default_delays_accepted w l mixed_parallel T)+
qed

end
